theory Spec2Isabelle
  imports Complex_Main "HOL-Library.AList"
begin

section \<open>JavaScript values\<close>

text \<open>
  An exception is a value: \<open>new Error(message, {cause})\<close>. Every function of the source
  that can throw returns \<open>error + 'a\<close>, with \<open>Inl\<close> for the thrown error; a method that
  also mutates the session returns the pair of that result and the session it leaves
  behind, so that what was mutated before a throw stays visible.
\<close>

datatype error = Error (message: string) (cause: "error option")

text \<open>
  \<open>xs[i]\<close> on an array: \<open>undefined\<close> outside the array. Indices are integers here; a
  JavaScript number that is not an integer reads \<open>undefined\<close> as an index out of range does.
\<close>

definition at_index :: "'a list \<Rightarrow> int \<Rightarrow> 'a option" where
  "at_index xs i = (if 0 \<le> i \<and> i < int (length xs) then Some (xs ! nat i) else None)"

text \<open>
  \<open>String(n)\<close> and \<open>`${n}`\<close> for a natural number \<open>n\<close>: its decimal digits. The counters
  of the source (\<open>#nextSnapshotId\<close>, \<open>idCounter\<close>, list lengths) are natural numbers.
\<close>

definition digit :: "nat \<Rightarrow> char" where
  "digit d = ''0123456789'' ! d"

fun String_nat :: "nat \<Rightarrow> string" where
  "String_nat n = (if n < 10 then [digit n] else String_nat (n div 10) @ [digit (n mod 10)])"

declare String_nat.simps [simp del]

text \<open>Truthiness of an optional string: \<open>undefined\<close>, \<open>null\<close> and \<open>''\<close> are falsy.\<close>

definition truthy_string :: "string option \<Rightarrow> bool" where
  "truthy_string s = (case s of None \<Rightarrow> False | Some t \<Rightarrow> t \<noteq> [])"

text \<open>Truthiness of an optional number: \<open>undefined\<close> and \<open>0\<close> are falsy.\<close>

definition truthy_number :: "int option \<Rightarrow> bool" where
  "truthy_number n = (case n of None \<Rightarrow> False | Some k \<Rightarrow> k \<noteq> 0)"

section \<open>The browser's pages\<close>

text \<open>
  A \<open>Page\<close> is an object of the browser-control collaborator. The session holds
  references to pages (in \<open>#pages\<close>, and as keys of its two \<open>WeakMap\<close>s), so a page is an
  identity and the objects live in a store. Of a page object the session reads its URL
  and whether it is closed, and writes its two default timeouts and its listeners for
  the \<open>dialog\<close> event. \<open>page.on\<close> adds one registration of the handler and \<open>page.off\<close>
  removes one if there is one; the only handler the session ever registers for \<open>dialog\<close>
  is \<open>#dialogHandler\<close>, so the registrations of a page are counted.
\<close>

type_synonym page = nat

record PageObj =
  page_url :: string
  page_closed :: bool
  dialogListeners :: nat
  defaultTimeout :: real
  defaultNavigationTimeout :: real

record Dialog =
  dialog_type :: string
  dialog_message :: string
  dialog_defaultValue :: string

section \<open>The accessibility tree\<close>

text \<open>
  \<open>SerializedAXNode\<close> as the snapshot encoder reads it: the role, the optional name and
  value, the children, and the node's \<open>elementHandle()\<close> method, which is a reference to
  a DOM node that the browser resolves when asked. The source reads an absent
  \<open>children\<close> as the empty array (\<open>node.children ? ... : []\<close>), so the children are a list.
  A value is a string or a number.
\<close>

datatype ax_value = StringValue string | NumberValue int

datatype SerializedAXNode = SerializedAXNode
  (ax_role: string) (ax_name: "string option") (ax_value: "ax_value option")
  (ax_element: nat) (ax_children: "SerializedAXNode list")

datatype TextSnapshotNode = TextSnapshotNode
  (node_id: string) (node_role: string) (node_name: "string option")
  (node_value: "ax_value option") (node_element: nat)
  (node_children: "TextSnapshotNode list")

text \<open>
  \<open>idToNode\<close> is a \<open>Map\<close>: \<open>set\<close> replaces the value of a key that is present and appends a
  new key, which is \<open>AList.update\<close>; \<open>get\<close> is \<open>map_of\<close>; \<open>size\<close> is the length.
\<close>

record TextSnapshot =
  root :: TextSnapshotNode
  idToNode :: "(string \<times> TextSnapshotNode) list"
  snapshotId :: string

section \<open>Network requests and console messages\<close>

text \<open>
  \<open>HTTPRequest\<close> and \<open>HTTPResponse\<close> of the browser-control collaborator, with what the
  response builder reads of them: the URL, the resource type, the headers, the response,
  the failure's \<open>errorText\<close> and the redirect chain.
\<close>

datatype HTTPResponse = HTTPResponse (response_headers: "(string \<times> string) list")

datatype HTTPRequest = HTTPRequest
  (request_url: string) (resourceType: string) (request_headers: "(string \<times> string) list")
  (request_response: "HTTPResponse option") (request_failure: "string option")
  (redirectChain: "HTTPRequest list")

text \<open>
  What \<open>arg.jsonValue()\<close> can resolve to. An object or array carries its JSON text (what
  \<open>JSON.stringify\<close> returns for it), and a number carries the text \<open>String\<close> prints for
  it (its digits, a fraction, exponent notation from \<open>1e21\<close> on, \<open>NaN\<close>, \<open>Infinity\<close>).
  \<open>String_js\<close> is \<open>String(v)\<close>. \<open>String_int\<close> is \<open>`${i}`\<close> for the small integers the
  response builder prints itself.
\<close>

datatype js_value =
  JsUndefined | JsNull | JsBoolean bool | JsNumber string | JsString string | JsObject string

definition String_int :: "int \<Rightarrow> string" where
  "String_int i = (if i < 0 then ''-'' @ String_nat (nat (- i)) else String_nat (nat i))"

fun String_js :: "js_value \<Rightarrow> string" where
  "String_js JsUndefined = ''undefined''"
| "String_js JsNull = ''null''"
| "String_js (JsBoolean b) = (if b then ''true'' else ''false'')"
| "String_js (JsNumber n) = n"
| "String_js (JsString s) = s"
| "String_js (JsObject j) = ''[object Object]''"

text \<open>
  A console message with its type, text and arguments; each argument is a handle whose
  \<open>jsonValue()\<close> resolves to a value or rejects with an error. The console collector
  holds console messages and page errors (\<open>ConsoleMessage | Error\<close>); \<open>'args' in item\<close> and
  \<open>'type' in item\<close> hold for the former only.
\<close>

datatype ConsoleMessage = ConsoleMessage
  (message_type: string) (message_text: string) (message_args: "(error + js_value) list")

datatype ConsoleItem = Message ConsoleMessage | PageError error

record ConsoleMessageData =
  consoleMessageStableId :: int
  data_type :: string
  data_message :: string
  data_args :: "string list"

text \<open>
  \<open>PageCollector\<close> is not among the sources. The session only forwards to three of its
  methods, which are taken as they are: \<open>getData(page, includePreserved)\<close>,
  \<open>getById(page, id)\<close> and \<open>getIdForResource(resource)\<close>; the last two can throw.
\<close>

record 'r PageCollector =
  getData :: "page \<Rightarrow> bool option \<Rightarrow> 'r list"
  getById :: "page \<Rightarrow> int \<Rightarrow> error + 'r"
  getIdForResource :: "'r \<Rightarrow> error + int"

section \<open>McpContext\<close>

text \<open>
  The private fields of \<open>McpContext\<close> that the modelled methods read or write, and the
  part of the browser they reach: \<open>browserPages\<close> is what \<open>browser.pages()\<close> returns,
  \<open>pageObjs\<close> is the store of page objects, \<open>accessibility_snapshot page interestingOnly\<close>
  is what \<open>page.accessibility.snapshot\<close> returns (\<open>None\<close> for \<open>null\<close>), \<open>elementHandle\<close> is
  what a node's \<open>elementHandle()\<close> resolves to (\<open>None\<close> for \<open>null\<close>, a detached node),
  \<open>devToolsRequestId\<close> is the \<open>requestId\<close> of what \<open>getDevToolsData()\<close> resolves to (it
  catches every error; \<open>None\<close> when it resolves to \<open>undefined\<close> or to no request id),
  \<open>logged\<close> is what \<open>this.logger\<close> was called with, \<open>files\<close> is what \<open>fs.writeFile\<close> wrote.
\<close>

record McpContext =
  pages :: "page list"
  selectedPageIdx :: int
  textSnapshot :: "TextSnapshot option"
  networkConditionsMap :: "page \<Rightarrow> string option"
  cpuThrottlingRateMap :: "page \<Rightarrow> real option"
  dialog :: "Dialog option"
  nextSnapshotId :: nat
  experimentalDevToolsDebugging :: bool
  browserPages :: "page list"
  pageObjs :: "page \<Rightarrow> PageObj"
  accessibility_snapshot :: "page \<Rightarrow> bool \<Rightarrow> SerializedAXNode option"
  elementHandle :: "nat \<Rightarrow> nat option"
  networkCollector :: "HTTPRequest PageCollector"
  consoleCollector :: "ConsoleItem PageCollector"
  devToolsRequestId :: "int option"
  logged :: "error list"
  files :: "(string \<times> string) list"

definition DEFAULT_TIMEOUT :: real where
  "DEFAULT_TIMEOUT = 5000"

definition NAVIGATION_TIMEOUT :: real where
  "NAVIGATION_TIMEOUT = 10000"

definition getNetworkMultiplierFromString :: "string option \<Rightarrow> real" where
  "getNetworkMultiplierFromString condition =
     (if condition = Some ''Fast 4G'' then 1
      else if condition = Some ''Slow 4G'' then 5 / 2
      else if condition = Some ''Fast 3G'' then 5
      else if condition = Some ''Slow 3G'' then 10
      else 1)"

definition getExtensionFromMimeType :: "string \<Rightarrow> error + string" where
  "getExtensionFromMimeType mimeType =
     (if mimeType = ''image/png'' then Inr ''png''
      else if mimeType = ''image/jpeg'' then Inr ''jpeg''
      else if mimeType = ''image/webp'' then Inr ''webp''
      else Inl (Error (''No mapping for Mime type '' @ mimeType @ ''.'') None))"

definition CLOSE_PAGE_ERROR :: string where
  "CLOSE_PAGE_ERROR = ''The last open page cannot be closed. It is fine to keep it open.''"

definition getSelectedPage :: "McpContext \<Rightarrow> error + page" where
  "getSelectedPage ctx =
     (case at_index (pages ctx) (selectedPageIdx ctx) of
        None \<Rightarrow> Inl (Error ''No page selected'' None)
      | Some page \<Rightarrow>
          if page_closed (pageObjs ctx page)
          then Inl (Error ''The selected page has been closed. Call list_pages to see open pages.'' None)
          else Inr page)"

definition getPageByIdx :: "McpContext \<Rightarrow> int \<Rightarrow> error + page" where
  "getPageByIdx ctx idx =
     (case at_index (pages ctx) idx of
        None \<Rightarrow> Inl (Error ''No page found'' None)
      | Some page \<Rightarrow> Inr page)"

definition getNetworkConditions :: "McpContext \<Rightarrow> error + string option" where
  "getNetworkConditions ctx =
     (case getSelectedPage ctx of
        Inl e \<Rightarrow> Inl e
      | Inr page \<Rightarrow> Inr (networkConditionsMap ctx page))"

definition getCpuThrottlingRate :: "McpContext \<Rightarrow> error + real" where
  "getCpuThrottlingRate ctx =
     (case getSelectedPage ctx of
        Inl e \<Rightarrow> Inl e
      | Inr page \<Rightarrow> Inr (case cpuThrottlingRateMap ctx page of None \<Rightarrow> 1 | Some rate \<Rightarrow> rate))"

text \<open>The page methods the session calls, as updates of the page object in the store.\<close>

definition setDefaultTimeout :: "page \<Rightarrow> real \<Rightarrow> McpContext \<Rightarrow> McpContext" where
  "setDefaultTimeout page t ctx =
     ctx\<lparr>pageObjs := (pageObjs ctx)(page := (pageObjs ctx page)\<lparr>defaultTimeout := t\<rparr>)\<rparr>"

definition setDefaultNavigationTimeout :: "page \<Rightarrow> real \<Rightarrow> McpContext \<Rightarrow> McpContext" where
  "setDefaultNavigationTimeout page t ctx =
     ctx\<lparr>pageObjs := (pageObjs ctx)(page := (pageObjs ctx page)\<lparr>defaultNavigationTimeout := t\<rparr>)\<rparr>"

definition page_off_dialog :: "page \<Rightarrow> McpContext \<Rightarrow> McpContext" where
  "page_off_dialog page ctx =
     ctx\<lparr>pageObjs := (pageObjs ctx)
        (page := (pageObjs ctx page)\<lparr>dialogListeners := dialogListeners (pageObjs ctx page) - 1\<rparr>)\<rparr>"

definition page_on_dialog :: "page \<Rightarrow> McpContext \<Rightarrow> McpContext" where
  "page_on_dialog page ctx =
     ctx\<lparr>pageObjs := (pageObjs ctx)
        (page := (pageObjs ctx page)\<lparr>dialogListeners := dialogListeners (pageObjs ctx page) + 1\<rparr>)\<rparr>"

text \<open>
  \<open>page.close()\<close>: the page object is closed and the browser no longer lists it.
\<close>

definition page_close :: "page \<Rightarrow> McpContext \<Rightarrow> McpContext" where
  "page_close page ctx =
     ctx\<lparr>pageObjs := (pageObjs ctx)(page := (pageObjs ctx page)\<lparr>page_closed := True\<rparr>),
         browserPages := removeAll page (browserPages ctx)\<rparr>"

definition updateSelectedPageTimeouts :: "McpContext \<Rightarrow> (error + unit) \<times> McpContext" where
  "updateSelectedPageTimeouts ctx =
     (case getSelectedPage ctx of
        Inl e \<Rightarrow> (Inl e, ctx)
      | Inr page \<Rightarrow>
          (case getCpuThrottlingRate ctx of
             Inl e \<Rightarrow> (Inl e, ctx)
           | Inr cpuMultiplier \<Rightarrow>
               (let ctx1 = setDefaultTimeout page (DEFAULT_TIMEOUT * cpuMultiplier) ctx in
                case getNetworkConditions ctx1 of
                  Inl e \<Rightarrow> (Inl e, ctx1)
                | Inr conditions \<Rightarrow>
                    (let networkMultiplier = getNetworkMultiplierFromString conditions in
                     (Inr (),
                      setDefaultNavigationTimeout page
                        (NAVIGATION_TIMEOUT * networkMultiplier) ctx1)))))"

definition setNetworkConditions :: "McpContext \<Rightarrow> string option \<Rightarrow> (error + unit) \<times> McpContext" where
  "setNetworkConditions ctx conditions =
     (case getSelectedPage ctx of
        Inl e \<Rightarrow> (Inl e, ctx)
      | Inr page \<Rightarrow>
          updateSelectedPageTimeouts
            (ctx\<lparr>networkConditionsMap := (networkConditionsMap ctx)(page := conditions)\<rparr>))"

definition setCpuThrottlingRate :: "McpContext \<Rightarrow> real \<Rightarrow> (error + unit) \<times> McpContext" where
  "setCpuThrottlingRate ctx rate =
     (case getSelectedPage ctx of
        Inl e \<Rightarrow> (Inl e, ctx)
      | Inr page \<Rightarrow>
          updateSelectedPageTimeouts
            (ctx\<lparr>cpuThrottlingRateMap := (cpuThrottlingRateMap ctx)(page \<mapsto> rate)\<rparr>))"

definition setSelectedPageIdx :: "McpContext \<Rightarrow> int \<Rightarrow> (error + unit) \<times> McpContext" where
  "setSelectedPageIdx ctx idx =
     (case getSelectedPage ctx of
        Inl e \<Rightarrow> (Inl e, ctx)
      | Inr oldPage \<Rightarrow>
          (let ctx1 = page_off_dialog oldPage ctx;
               ctx2 = ctx1\<lparr>selectedPageIdx := idx\<rparr>
           in case getSelectedPage ctx2 of
                Inl e \<Rightarrow> (Inl e, ctx2)
              | Inr newPage \<Rightarrow> updateSelectedPageTimeouts (page_on_dialog newPage ctx2)))"

definition closePage :: "McpContext \<Rightarrow> int \<Rightarrow> (error + unit) \<times> McpContext" where
  "closePage ctx pageIdx =
     (if length (pages ctx) = 1 then (Inl (Error CLOSE_PAGE_ERROR None), ctx)
      else case getPageByIdx ctx pageIdx of
             Inl e \<Rightarrow> (Inl e, ctx)
           | Inr page \<Rightarrow>
               (case setSelectedPageIdx ctx 0 of
                  (Inl e, ctx1) \<Rightarrow> (Inl e, ctx1)
                | (Inr u, ctx1) \<Rightarrow> (Inr (), page_close page ctx1)))"

text \<open>
  The timeouts of the selected page are the derived ones: the base action timeout times
  the page's CPU-throttling rate (1 when none is set), and the base navigation timeout
  times the multiplier of the page's network condition.
\<close>

definition timeouts_derived :: "McpContext \<Rightarrow> bool" where
  "timeouts_derived ctx =
     (case getSelectedPage ctx of
        Inl e \<Rightarrow> False
      | Inr page \<Rightarrow>
          defaultTimeout (pageObjs ctx page) =
            DEFAULT_TIMEOUT * (case cpuThrottlingRateMap ctx page of None \<Rightarrow> 1 | Some rate \<Rightarrow> rate) \<and>
          defaultNavigationTimeout (pageObjs ctx page) =
            NAVIGATION_TIMEOUT * getNetworkMultiplierFromString (networkConditionsMap ctx page))"

section \<open>Page list, dialogs\<close>

definition startsWith :: "string \<Rightarrow> string \<Rightarrow> bool" where
  "startsWith s p = (take (length p) s = p)"

text \<open>
  \<open>createPagesSnapshot\<close>: \<open>#pages\<close> becomes what the browser lists now, without the
  DevTools windows unless they are exposed. (\<open>detectOpenDevToolsWindows\<close> only rebuilds
  \<open>#pageToDevToolsPage\<close>, which no method modelled here reads.)
\<close>

definition createPagesSnapshot :: "McpContext \<Rightarrow> McpContext" where
  "createPagesSnapshot ctx =
     ctx\<lparr>pages :=
       filter (\<lambda>page. experimentalDevToolsDebugging ctx \<or>
                 \<not> startsWith (page_url (pageObjs ctx page)) ''devtools://'')
         (browserPages ctx)\<rparr>"

text \<open>
  The browser emits \<open>dialog\<close> on a page: every registration of \<open>#dialogHandler\<close> on that
  page runs, and the handler stores the dialog in \<open>#dialog\<close>.
\<close>

definition dialogHandler :: "Dialog \<Rightarrow> McpContext \<Rightarrow> McpContext" where
  "dialogHandler d ctx = ctx\<lparr>dialog := Some d\<rparr>"

definition emit_dialog :: "page \<Rightarrow> Dialog \<Rightarrow> McpContext \<Rightarrow> McpContext" where
  "emit_dialog page d ctx =
     ((dialogHandler d) ^^ (dialogListeners (pageObjs ctx page))) ctx"

definition clearDialog :: "McpContext \<Rightarrow> McpContext" where
  "clearDialog ctx = ctx\<lparr>dialog := None\<rparr>"

text \<open>
  The dialog handler is subscribed to exactly the selected page: the page at
  \<open>#selectedPageIdx\<close> has one registration and no other page has any, of the pages the
  session lists and of those the browser has open.
\<close>

definition dialog_exclusive :: "McpContext \<Rightarrow> bool" where
  "dialog_exclusive ctx =
     (case at_index (pages ctx) (selectedPageIdx ctx) of
        None \<Rightarrow> False
      | Some selected \<Rightarrow>
          dialogListeners (pageObjs ctx selected) = 1 \<and>
          list_all (\<lambda>page. page = selected \<or> dialogListeners (pageObjs ctx page) = 0)
            (pages ctx @ browserPages ctx))"

section \<open>Text snapshots\<close>

text \<open>
  \<open>assignIds\<close> of \<open>createTextSnapshot\<close>, with the two variables it closes over
  (\<open>idCounter\<close> and \<open>idToNode\<close>) passed through, and \<open>sid\<close> for the \<open>snapshotId\<close> it
  reads. The object literal evaluates the id
  (and increments the counter) before it maps over the children; the node enters
  \<open>idToNode\<close> after its children have.
\<close>

fun assignIds :: "nat \<Rightarrow> SerializedAXNode \<Rightarrow> nat \<times> (string \<times> TextSnapshotNode) list \<Rightarrow>
    TextSnapshotNode \<times> nat \<times> (string \<times> TextSnapshotNode) list"
  and assignIds_children :: "nat \<Rightarrow> SerializedAXNode list \<Rightarrow>
    nat \<times> (string \<times> TextSnapshotNode) list \<Rightarrow>
    TextSnapshotNode list \<times> nat \<times> (string \<times> TextSnapshotNode) list" where
  "assignIds sid (SerializedAXNode nrole nname nvalue nelement nchildren) (idCounter, idMap) =
     (let nodeId = String_nat sid @ ''_'' @ String_nat idCounter in
      case assignIds_children sid nchildren (idCounter + 1, idMap) of
        (children, idCounter', idMap') \<Rightarrow>
          (let value' =
                 (if nrole = ''option''
                  then (case nname of
                          None \<Rightarrow> nvalue
                        | Some optionText \<Rightarrow>
                            if optionText \<noteq> [] then Some (StringValue optionText) else nvalue)
                  else nvalue);
               nodeWithId = TextSnapshotNode nodeId nrole nname value' nelement children
           in (nodeWithId, idCounter', AList.update nodeId nodeWithId idMap')))"
| "assignIds_children sid [] st = ([], st)"
| "assignIds_children sid (child # rest) st =
     (case assignIds sid child st of
        (node, st') \<Rightarrow>
          (case assignIds_children sid rest st' of
             (nodes, st'') \<Rightarrow> (node # nodes, st'')))"

definition createTextSnapshot :: "McpContext \<Rightarrow> bool \<Rightarrow> (error + unit) \<times> McpContext" where
  "createTextSnapshot ctx verbose =
     (case getSelectedPage ctx of
        Inl e \<Rightarrow> (Inl e, ctx)
      | Inr page \<Rightarrow>
          (case accessibility_snapshot ctx page (\<not> verbose) of
             None \<Rightarrow> (Inr (), ctx)
           | Some rootNode \<Rightarrow>
               (let sid = nextSnapshotId ctx;
                    ctx1 = ctx\<lparr>nextSnapshotId := sid + 1\<rparr>
                in case assignIds sid rootNode (0, []) of
                     (rootNodeWithId, idCounter, idMap) \<Rightarrow>
                       (Inr (),
                        ctx1\<lparr>textSnapshot := Some
                          \<lparr>root = rootNodeWithId, idToNode = idMap,
                           snapshotId = String_nat sid\<rparr>\<rparr>))))"

definition NO_SNAPSHOT :: error where
  "NO_SNAPSHOT = Error ''No snapshot found. Use take_snapshot to capture one.'' None"

definition STALE_SNAPSHOT :: error where
  "STALE_SNAPSHOT =
     Error ''This uid is coming from a stale snapshot. Call take_snapshot to get a fresh snapshot.'' None"

definition NO_SUCH_ELEMENT :: error where
  "NO_SUCH_ELEMENT = Error ''No such element found in the snapshot'' None"

text \<open>\<open>uid.split('_')[0]\<close>: the part of \<open>uid\<close> before its first underscore.\<close>

definition split_first :: "string \<Rightarrow> string" where
  "split_first uid = takeWhile (\<lambda>c. c \<noteq> CHR ''_'') uid"

definition getElementByUid :: "McpContext \<Rightarrow> string \<Rightarrow> error + nat" where
  "getElementByUid ctx uid =
     (case textSnapshot ctx of
        None \<Rightarrow> Inl NO_SNAPSHOT
      | Some snap \<Rightarrow>
          if length (idToNode snap) = 0 then Inl NO_SNAPSHOT
          else if snapshotId snap \<noteq> split_first uid then Inl STALE_SNAPSHOT
          else (case map_of (idToNode snap) uid of
                  None \<Rightarrow> Inl NO_SUCH_ELEMENT
                | Some node \<Rightarrow>
                    (case elementHandle ctx (node_element node) of
                       None \<Rightarrow> Inl NO_SUCH_ELEMENT
                     | Some handle \<Rightarrow> Inr handle)))"

text \<open>The uids a snapshot issued: the keys of its \<open>idToNode\<close>.\<close>

definition issued_uids :: "McpContext \<Rightarrow> string list" where
  "issued_uids ctx = (case textSnapshot ctx of None \<Rightarrow> [] | Some snap \<Rightarrow> map fst (idToNode snap))"

text \<open>Every key of an \<open>idToNode\<close> map carries the prefix of snapshot \<open>sid\<close>.\<close>

definition keys_of :: "nat \<Rightarrow> (string \<times> TextSnapshotNode) list \<Rightarrow> bool" where
  "keys_of sid m = (\<forall>k \<in> fst ` set m. split_first k = String_nat sid)"

text \<open>All nodes of a snapshot tree, and the raw nodes they were made from, in preorder.\<close>

fun raw_nodes :: "SerializedAXNode \<Rightarrow> SerializedAXNode list" where
  "raw_nodes (SerializedAXNode nrole nname nvalue nelement nchildren) =
     SerializedAXNode nrole nname nvalue nelement nchildren # concat (map raw_nodes nchildren)"

fun snapshot_nodes :: "TextSnapshotNode \<Rightarrow> TextSnapshotNode list" where
  "snapshot_nodes (TextSnapshotNode i nrole nname nvalue nelement nchildren) =
     TextSnapshotNode i nrole nname nvalue nelement nchildren # concat (map snapshot_nodes nchildren)"

text \<open>
  The value the encoder gives a node: the name, for an option with a name that is not
  empty; the node's own value otherwise.
\<close>

definition option_value :: "SerializedAXNode \<Rightarrow> ax_value option" where
  "option_value raw =
     (if ax_role raw = ''option'' \<and> truthy_string (ax_name raw)
      then map_option StringValue (ax_name raw)
      else ax_value raw)"

section \<open>Saving files\<close>

text \<open>
  What the session asks of Node: \<open>mkdtemp\<close> is the outcome of
  \<open>fs.mkdtemp(path.join(os.tmpdir(), 'chrome-devtools-mcp-'))\<close>, \<open>writeFile_error\<close> is the
  error \<open>fs.writeFile\<close> raises for a path (none when it writes), \<open>path_join\<close> and
  \<open>path_resolve\<close> are the functions of \<open>node:path\<close>.
\<close>

record Node =
  mkdtemp :: "error + string"
  writeFile_error :: "string \<Rightarrow> error option"
  path_join :: "string \<Rightarrow> string \<Rightarrow> string"
  path_resolve :: "string \<Rightarrow> string"

definition SAVE_FAILED :: string where
  "SAVE_FAILED = ''Could not save a screenshot to a file''"

definition saveTemporaryFile ::
    "Node \<Rightarrow> McpContext \<Rightarrow> string \<Rightarrow> string \<Rightarrow> (error + string) \<times> McpContext" where
  "saveTemporaryFile node ctx data mimeType =
     (case (case mkdtemp node of
              Inl err \<Rightarrow> Inl err
            | Inr dir \<Rightarrow>
                (case getExtensionFromMimeType mimeType of
                   Inl err \<Rightarrow> Inl err
                 | Inr ext \<Rightarrow>
                     (let filename = path_join node dir (''screenshot.'' @ ext) in
                      case writeFile_error node filename of
                        Some err \<Rightarrow> Inl err
                      | None \<Rightarrow> Inr filename))) of
        Inl err \<Rightarrow>
          (Inl (Error SAVE_FAILED (Some err)), ctx\<lparr>logged := logged ctx @ [err]\<rparr>)
      | Inr filename \<Rightarrow>
          (Inr filename, ctx\<lparr>files := files ctx @ [(filename, data)]\<rparr>))"

definition saveFile ::
    "Node \<Rightarrow> McpContext \<Rightarrow> string \<Rightarrow> string \<Rightarrow> (error + string) \<times> McpContext" where
  "saveFile node ctx data filename =
     (let filePath = path_resolve node filename in
      case writeFile_error node filePath of
        Some err \<Rightarrow>
          (Inl (Error SAVE_FAILED (Some err)), ctx\<lparr>logged := logged ctx @ [err]\<rparr>)
      | None \<Rightarrow> (Inr filename, ctx\<lparr>files := files ctx @ [(filePath, data)]\<rparr>))"

section \<open>The session's queries\<close>

definition getNetworkRequests :: "McpContext \<Rightarrow> bool option \<Rightarrow> error + HTTPRequest list" where
  "getNetworkRequests ctx includePreservedRequests =
     (case getSelectedPage ctx of
        Inl e \<Rightarrow> Inl e
      | Inr page \<Rightarrow> Inr (getData (networkCollector ctx) page includePreservedRequests))"

definition getConsoleData :: "McpContext \<Rightarrow> bool option \<Rightarrow> error + ConsoleItem list" where
  "getConsoleData ctx includePreservedMessages =
     (case getSelectedPage ctx of
        Inl e \<Rightarrow> Inl e
      | Inr page \<Rightarrow> Inr (getData (consoleCollector ctx) page includePreservedMessages))"

definition getConsoleMessageStableId :: "McpContext \<Rightarrow> ConsoleItem \<Rightarrow> error + int" where
  "getConsoleMessageStableId ctx msg = getIdForResource (consoleCollector ctx) msg"

definition getConsoleMessageById :: "McpContext \<Rightarrow> int \<Rightarrow> error + ConsoleItem" where
  "getConsoleMessageById ctx msgid =
     (case getSelectedPage ctx of
        Inl e \<Rightarrow> Inl e
      | Inr page \<Rightarrow> getById (consoleCollector ctx) page msgid)"

definition getNetworkRequestById :: "McpContext \<Rightarrow> int \<Rightarrow> error + HTTPRequest" where
  "getNetworkRequestById ctx reqid =
     (case getSelectedPage ctx of
        Inl e \<Rightarrow> Inl e
      | Inr page \<Rightarrow> getById (networkCollector ctx) page reqid)"

definition getNetworkRequestStableId :: "McpContext \<Rightarrow> HTTPRequest \<Rightarrow> error + int" where
  "getNetworkRequestStableId ctx request = getIdForResource (networkCollector ctx) request"

definition getNavigationTimeout :: "McpContext \<Rightarrow> error + real" where
  "getNavigationTimeout ctx =
     (case getSelectedPage ctx of
        Inl e \<Rightarrow> Inl e
      | Inr page \<Rightarrow> Inr (defaultNavigationTimeout (pageObjs ctx page)))"

section \<open>Pagination\<close>

record PaginationOptions =
  pageSize :: "nat option"
  pageIdx :: "int option"

record 'a PaginationResult =
  items :: "'a list"
  currentPage :: nat
  totalPages :: nat
  hasNextPage :: bool
  hasPreviousPage :: bool
  startIndex :: nat
  endIndex :: nat
  invalidPage :: bool

text \<open>
  Modelled from the spec: \<open>paginate\<close> of \<open>utils/pagination.js\<close>, which is not among the
  sources. The spec (4.1): without a \<open>pageSize\<close> the page is the entire sequence, a single
  page with \<open>totalPages = 1\<close>; with one, \<open>totalPages = ceil(n / pageSize)\<close> and at least 1;
  \<open>pageIdx\<close> defaults to 0, and outside \<open>[0, totalPages)\<close> the result falls back to page 0
  and sets \<open>invalidPage\<close>; the output is the slice of the resolved page, its 0-based
  index, the page count, the range \<open>startIndex\<close> to \<open>endIndex\<close>, and whether a next
  and a previous page exist. The spec's contract is for a \<open>pageSize\<close> above 0.
\<close>

definition paginate :: "'a list \<Rightarrow> PaginationOptions option \<Rightarrow> 'a PaginationResult" where
  "paginate xs options =
     (let size_opt = (case options of None \<Rightarrow> None | Some opts \<Rightarrow> pageSize opts);
          idx_opt = (case options of None \<Rightarrow> None | Some opts \<Rightarrow> pageIdx opts);
          total = (case size_opt of
                     None \<Rightarrow> 1
                   | Some ps \<Rightarrow> max 1 ((length xs + ps - 1) div ps));
          requested = (case idx_opt of None \<Rightarrow> 0 | Some i \<Rightarrow> i);
          invalid = (requested < 0 \<or> int total \<le> requested);
          current = (if invalid then 0 else nat requested);
          start = (case size_opt of None \<Rightarrow> 0 | Some ps \<Rightarrow> current * ps);
          slice = (case size_opt of None \<Rightarrow> xs | Some ps \<Rightarrow> take ps (drop start xs))
      in \<lparr>items = slice, currentPage = current, totalPages = total,
          hasNextPage = (current + 1 < total), hasPreviousPage = (0 < current),
          startIndex = start, endIndex = start + length slice, invalidPage = invalid\<rparr>)"

definition INVALID_PAGE :: string where
  "INVALID_PAGE = ''Invalid page number provided. Showing first page.''"

definition dataWithPagination ::
    "'a list \<Rightarrow> PaginationOptions option \<Rightarrow> string list \<times> 'a list" where
  "dataWithPagination xs pagination =
     (let paginationResult = paginate xs pagination;
          response0 = (if invalidPage paginationResult then [INVALID_PAGE] else []);
          response1 = response0 @
            [''Showing '' @ String_nat (startIndex paginationResult + 1) @ ''-'' @
             String_nat (endIndex paginationResult) @ '' of '' @ String_nat (length xs) @
             '' (Page '' @ String_nat (currentPage paginationResult + 1) @ '' of '' @
             String_nat (totalPages paginationResult) @ '').''];
          response2 =
            (case pagination of
               None \<Rightarrow> response1
             | Some opts \<Rightarrow>
                 response1 @
                 (if hasNextPage paginationResult
                  then [''Next page: '' @ String_nat (currentPage paginationResult + 1)]
                  else []) @
                 (if hasPreviousPage paginationResult
                  then [''Previous page: '' @ String_int (int (currentPage paginationResult) - 1)]
                  else []))
      in (response2, items paginationResult))"

section \<open>McpResponse: the declare phase\<close>

record SnapshotParams =
  sp_verbose :: "bool option"
  sp_filePath :: "string option"

record ImageContentData =
  image_data :: string
  image_mimeType :: string

text \<open>
  The options of \<open>setIncludeNetworkRequests\<close> and \<open>setIncludeConsoleData\<close> are
  \<open>PaginationOptions\<close> extended with the filters; what the response keeps of them is
  \<open>#networkRequestsOptions\<close> and \<open>#consoleDataOptions\<close>.
\<close>

record NetworkRequestsArgs = PaginationOptions +
  resourceTypes :: "string list option"
  includePreservedRequests :: "bool option"
  networkRequestIdInDevToolsUI :: "int option"

record ConsoleDataArgs = PaginationOptions +
  types :: "string list option"
  includePreservedMessages :: "bool option"

record NetworkRequestsOptions =
  nro_include :: bool
  nro_pagination :: "PaginationOptions option"
  nro_resourceTypes :: "string list option"
  nro_includePreservedRequests :: "bool option"
  nro_networkRequestIdInDevToolsUI :: "int option"

record ConsoleDataOptions =
  cdo_include :: bool
  cdo_pagination :: "PaginationOptions option"
  cdo_types :: "string list option"
  cdo_includePreservedMessages :: "bool option"

record McpResponse =
  includePages :: bool
  snapshotParams :: "SnapshotParams option"
  attachedNetworkRequestId :: "int option"
  attachedConsoleMessageId :: "int option"
  textResponseLines :: "string list"
  images :: "ImageContentData list"
  networkRequestsOptions :: "NetworkRequestsOptions option"
  consoleDataOptions :: "ConsoleDataOptions option"

definition new_McpResponse :: McpResponse where
  "new_McpResponse =
     \<lparr>includePages = False, snapshotParams = None, attachedNetworkRequestId = None,
      attachedConsoleMessageId = None, textResponseLines = [], images = [],
      networkRequestsOptions = None, consoleDataOptions = None\<rparr>"

definition setIncludePages :: "McpResponse \<Rightarrow> bool \<Rightarrow> McpResponse" where
  "setIncludePages response b = response\<lparr>includePages := b\<rparr>"

definition includeSnapshot :: "McpResponse \<Rightarrow> SnapshotParams option \<Rightarrow> McpResponse" where
  "includeSnapshot response params =
     response\<lparr>snapshotParams := Some
       (case params of
          None \<Rightarrow> \<lparr>sp_verbose = Some False, sp_filePath = None\<rparr>
        | Some given \<Rightarrow> given)\<rparr>"

text \<open>\<open>options?.pageSize || options?.pageIdx\<close>: some number given and not 0.\<close>

definition pagination_given :: "nat option \<Rightarrow> int option \<Rightarrow> bool" where
  "pagination_given size_opt idx_opt =
     ((case size_opt of None \<Rightarrow> False | Some n \<Rightarrow> n \<noteq> 0) \<or> truthy_number idx_opt)"

definition setIncludeNetworkRequests ::
    "McpResponse \<Rightarrow> bool \<Rightarrow> NetworkRequestsArgs option \<Rightarrow> McpResponse" where
  "setIncludeNetworkRequests response b options =
     (if \<not> b then response\<lparr>networkRequestsOptions := None\<rparr>
      else response\<lparr>networkRequestsOptions := Some
        \<lparr>nro_include = b,
         nro_pagination =
           (case options of
              None \<Rightarrow> None
            | Some opts \<Rightarrow>
                if pagination_given (pageSize opts) (pageIdx opts)
                then Some \<lparr>pageSize = pageSize opts, pageIdx = pageIdx opts\<rparr>
                else None),
         nro_resourceTypes = (case options of None \<Rightarrow> None | Some opts \<Rightarrow> resourceTypes opts),
         nro_includePreservedRequests =
           (case options of None \<Rightarrow> None | Some opts \<Rightarrow> includePreservedRequests opts),
         nro_networkRequestIdInDevToolsUI =
           (case options of None \<Rightarrow> None | Some opts \<Rightarrow> networkRequestIdInDevToolsUI opts)\<rparr>\<rparr>)"

definition setIncludeConsoleData ::
    "McpResponse \<Rightarrow> bool \<Rightarrow> ConsoleDataArgs option \<Rightarrow> McpResponse" where
  "setIncludeConsoleData response b options =
     (if \<not> b then response\<lparr>consoleDataOptions := None\<rparr>
      else response\<lparr>consoleDataOptions := Some
        \<lparr>cdo_include = b,
         cdo_pagination =
           (case options of
              None \<Rightarrow> None
            | Some opts \<Rightarrow>
                if pagination_given (pageSize opts) (pageIdx opts)
                then Some \<lparr>pageSize = pageSize opts, pageIdx = pageIdx opts\<rparr>
                else None),
         cdo_types = (case options of None \<Rightarrow> None | Some opts \<Rightarrow> types opts),
         cdo_includePreservedMessages =
           (case options of None \<Rightarrow> None | Some opts \<Rightarrow> includePreservedMessages opts)\<rparr>\<rparr>)"


definition attachConsoleMessage :: "McpResponse \<Rightarrow> int \<Rightarrow> McpResponse" where
  "attachConsoleMessage response msgid = response\<lparr>attachedConsoleMessageId := Some msgid\<rparr>"

definition appendResponseLine :: "McpResponse \<Rightarrow> string \<Rightarrow> McpResponse" where
  "appendResponseLine response line =
     response\<lparr>textResponseLines := textResponseLines response @ [line]\<rparr>"

definition attachImage :: "McpResponse \<Rightarrow> ImageContentData \<Rightarrow> McpResponse" where
  "attachImage response img = response\<lparr>images := images response @ [img]\<rparr>"

section \<open>The tool handlers\<close>

definition closePage_handler ::
    "int \<Rightarrow> McpResponse \<Rightarrow> McpContext \<Rightarrow> (error + unit) \<times> McpResponse \<times> McpContext" where
  "closePage_handler pageIdx_param response ctx =
     (case closePage ctx pageIdx_param of
        (Inl err, ctx1) \<Rightarrow>
          if message err = CLOSE_PAGE_ERROR
          then (Inr (), setIncludePages (appendResponseLine response (message err)) True, ctx1)
          else (Inl err, response, ctx1)
      | (Inr u, ctx1) \<Rightarrow> (Inr (), setIncludePages response True, ctx1))"

definition listPages_handler :: "McpResponse \<Rightarrow> McpResponse" where
  "listPages_handler response = setIncludePages response True"

text \<open>
  \<open>handle_dialog\<close>. \<open>outcome\<close> is what the browser does with the call on the dialog:
  \<open>dialog.accept(promptText)\<close> or \<open>dialog.dismiss()\<close> throws the error it gives, if any.
  \<open>logger\<close> of \<open>logger.js\<close> is the list of what it was called with.
\<close>

datatype dialog_action = accept | dismiss

definition handleDialog_handler ::
    "(Dialog \<Rightarrow> dialog_action \<Rightarrow> string option \<Rightarrow> error option) \<Rightarrow> dialog_action \<Rightarrow>
     string option \<Rightarrow> McpResponse \<Rightarrow> McpContext \<Rightarrow> error list \<Rightarrow>
     (error + unit) \<times> McpResponse \<times> McpContext \<times> error list" where
  "handleDialog_handler outcome action promptText response ctx logger =
     (case dialog ctx of
        None \<Rightarrow> (Inl (Error ''No open dialog found'' None), response, ctx, logger)
      | Some d \<Rightarrow>
          (case action of
             accept \<Rightarrow>
               (let logger1 = (case outcome d accept promptText of
                                 Some err \<Rightarrow> logger @ [err]
                               | None \<Rightarrow> logger);
                    response1 = appendResponseLine response ''Successfully accepted the dialog''
                in (Inr (), setIncludePages response1 True, clearDialog ctx, logger1))
           | dismiss \<Rightarrow>
               (let logger1 = (case outcome d dismiss None of
                                 Some err \<Rightarrow> logger @ [err]
                               | None \<Rightarrow> logger);
                    response1 = appendResponseLine response ''Successfully dismissed the dialog''
                in (Inr (), setIncludePages response1 True, clearDialog ctx, logger1))))"


section \<open>McpResponse: gather and render\<close>

text \<open>
  The formatters (\<open>formatters/*.js\<close>) are not among the sources; the response builder
  only calls them, so they are taken as they are. \<open>String_number\<close> is \<open>`${x}`\<close> for a
  number \<open>x\<close> that need not be a natural number (a timeout, a throttling rate).
\<close>

record Formatters =
  getStatusFromRequest :: "HTTPRequest \<Rightarrow> string"
  getFormattedHeaderValue :: "(string \<times> string) list \<Rightarrow> string list"
  getShortDescriptionForRequest :: "HTTPRequest \<Rightarrow> int \<Rightarrow> bool option \<Rightarrow> string"
  getFormattedRequestBody :: "HTTPRequest \<Rightarrow> string option"
  getFormattedResponseBody :: "HTTPResponse \<Rightarrow> string option"
  formatConsoleEventShort :: "ConsoleMessageData \<Rightarrow> string"
  formatConsoleEventVerbose :: "ConsoleMessageData \<Rightarrow> string"
  formatA11ySnapshot :: "TextSnapshotNode \<Rightarrow> string"
  String_number :: "real \<Rightarrow> string"

record Bodies =
  requestBody :: "string option"
  responseBody :: "string option"

record GatheredData =
  bodies :: Bodies
  consoleData :: "ConsoleMessageData option"
  consoleListData :: "ConsoleMessageData list option"
  formattedSnapshot :: "string option"

datatype Content = TextContent string | ImageContent ImageContentData

text \<open>\<open>Promise.all\<close> over a mapped array: the results in order, or the first error.\<close>

fun map_result :: "('a \<Rightarrow> error + 'b) \<Rightarrow> 'a list \<Rightarrow> error + 'b list" where
  "map_result f [] = Inr []"
| "map_result f (x # xs) =
     (case f x of
        Inl e \<Rightarrow> Inl e
      | Inr y \<Rightarrow> (case map_result f xs of Inl e \<Rightarrow> Inl e | Inr ys \<Rightarrow> Inr (y # ys)))"

text \<open>
  One console argument: \<open>arg.jsonValue().catch(() => {})\<close> is \<open>undefined\<close> when the
  extraction fails; a value whose \<open>typeof\<close> is \<open>'object'\<close> (\<open>null\<close>, an object) goes through
  \<open>JSON.stringify\<close>, any other through \<open>String\<close>.
\<close>

definition stringifyArg :: "error + js_value \<Rightarrow> string" where
  "stringifyArg arg =
     (let stringArg = (case arg of Inl err \<Rightarrow> JsUndefined | Inr v \<Rightarrow> v) in
      case stringArg of
        JsNull \<Rightarrow> ''null''
      | JsObject json \<Rightarrow> json
      | _ \<Rightarrow> String_js stringArg)"

definition consoleMessageData :: "int \<Rightarrow> ConsoleItem \<Rightarrow> ConsoleMessageData" where
  "consoleMessageData stableId item =
     (case item of
        Message consoleMessage \<Rightarrow>
          \<lparr>consoleMessageStableId = stableId,
           data_type = message_type consoleMessage,
           data_message = message_text consoleMessage,
           data_args = map stringifyArg (message_args consoleMessage)\<rparr>
      | PageError err \<Rightarrow>
          \<lparr>consoleMessageStableId = stableId, data_type = ''error'',
           data_message = message err, data_args = []\<rparr>)"

text \<open>
  The two filters of the list sections, which the source writes as arrow functions: a
  request passes when its resource type is in the set; a console message passes when
  its type is, and a page error when \<open>'error'\<close> is.
\<close>

definition matches_resourceTypes :: "string list \<Rightarrow> HTTPRequest \<Rightarrow> bool" where
  "matches_resourceTypes ts request = (resourceType request \<in> set ts)"

definition matches_types :: "string list \<Rightarrow> ConsoleItem \<Rightarrow> bool" where
  "matches_types ts msg =
     (case msg of
        Message m \<Rightarrow> message_type m \<in> set ts
      | PageError err \<Rightarrow> ''error'' \<in> set ts)"

text \<open>
  The line of a list section that reports the pagination of a list: the shown range, the
  total count and the page count.
\<close>

definition showing_line :: "'a list \<Rightarrow> PaginationOptions option \<Rightarrow> string" where
  "showing_line xs pagination =
     ''Showing '' @ String_nat (startIndex (paginate xs pagination) + 1) @ ''-'' @
     String_nat (endIndex (paginate xs pagination)) @ '' of '' @ String_nat (length xs) @
     '' (Page '' @ String_nat (currentPage (paginate xs pagination) + 1) @ '' of '' @
     String_nat (totalPages (paginate xs pagination)) @ '').''"

text \<open>A collector whose data went through a filter before it is asked for.\<close>

definition prefiltered :: "('r \<Rightarrow> bool) \<Rightarrow> 'r PageCollector \<Rightarrow> 'r PageCollector" where
  "prefiltered keep collector =
     collector\<lparr>getData := (\<lambda>page includePreserved.
        filter keep (getData collector page includePreserved))\<rparr>"

text \<open>The four gathering steps of \<open>handle\<close>, in its order.\<close>

definition gatherSnapshot ::
    "Formatters \<Rightarrow> Node \<Rightarrow> McpResponse \<Rightarrow> McpContext \<Rightarrow> (error + string option) \<times> McpContext" where
  "gatherSnapshot fmt node response ctx =
     (case snapshotParams response of
        None \<Rightarrow> (Inr None, ctx)
      | Some params \<Rightarrow>
          (case createTextSnapshot ctx (case sp_verbose params of None \<Rightarrow> False | Some v \<Rightarrow> v) of
             (Inl e, ctx1) \<Rightarrow> (Inl e, ctx1)
           | (Inr u, ctx1) \<Rightarrow>
               (case textSnapshot ctx1 of
                  None \<Rightarrow> (Inr None, ctx1)
                | Some snapshot \<Rightarrow>
                    (let inline = (Inr (Some (formatA11ySnapshot fmt (root snapshot))), ctx1) in
                     case sp_filePath params of
                       None \<Rightarrow> inline
                     | Some path \<Rightarrow>
                         if path = [] then inline
                         else (case saveFile node ctx1 (formatA11ySnapshot fmt (root snapshot)) path of
                                 (Inl e, ctx2) \<Rightarrow> (Inl e, ctx2)
                               | (Inr f, ctx2) \<Rightarrow>
                                   (Inr (Some (''Saved snapshot to '' @ path @ ''.'')), ctx2))))))"

definition gatherBodies :: "Formatters \<Rightarrow> McpResponse \<Rightarrow> McpContext \<Rightarrow> error + Bodies" where
  "gatherBodies fmt response ctx =
     (if truthy_number (attachedNetworkRequestId response)
      then (case attachedNetworkRequestId response of
              None \<Rightarrow> Inr \<lparr>requestBody = None, responseBody = None\<rparr>
            | Some reqid \<Rightarrow>
                (case getNetworkRequestById ctx reqid of
                   Inl e \<Rightarrow> Inl e
                 | Inr request \<Rightarrow>
                     Inr \<lparr>requestBody = getFormattedRequestBody fmt request,
                          responseBody =
                            (case request_response request of
                               None \<Rightarrow> None
                             | Some resp \<Rightarrow> getFormattedResponseBody fmt resp)\<rparr>))
      else Inr \<lparr>requestBody = None, responseBody = None\<rparr>)"

definition gatherConsoleData ::
    "McpResponse \<Rightarrow> McpContext \<Rightarrow> error + ConsoleMessageData option" where
  "gatherConsoleData response ctx =
     (if truthy_number (attachedConsoleMessageId response)
      then (case attachedConsoleMessageId response of
              None \<Rightarrow> Inr None
            | Some msgid \<Rightarrow>
                (case getConsoleMessageById ctx msgid of
                   Inl e \<Rightarrow> Inl e
                 | Inr msg \<Rightarrow> Inr (Some (consoleMessageData msgid msg))))
      else Inr None)"

definition gatherConsoleListData ::
    "McpResponse \<Rightarrow> McpContext \<Rightarrow> error + ConsoleMessageData list option" where
  "gatherConsoleListData response ctx =
     (case consoleDataOptions response of
        None \<Rightarrow> Inr None
      | Some opts \<Rightarrow>
          if \<not> cdo_include opts then Inr None
          else (case getConsoleData ctx (cdo_includePreservedMessages opts) of
                  Inl e \<Rightarrow> Inl e
                | Inr messages0 \<Rightarrow>
                    (let messages =
                       (case cdo_types opts of
                          None \<Rightarrow> messages0
                        | Some ts \<Rightarrow>
                            if ts = [] then messages0
                            else filter (matches_types ts) messages0)
                     in case map_result
                          (\<lambda>item. case getConsoleMessageStableId ctx item of
                               Inl e \<Rightarrow> Inl e
                             | Inr stableId \<Rightarrow> Inr (consoleMessageData stableId item))
                          messages of
                          Inl e \<Rightarrow> Inl e
                        | Inr listData \<Rightarrow> Inr (Some listData))))"

text \<open>\<open>response.join('\n')\<close>.\<close>

fun join_lines :: "string list \<Rightarrow> string" where
  "join_lines [] = []"
| "join_lines [l] = l"
| "join_lines (l # m # ls) = l @ [CHR 0x0A] @ join_lines (m # ls)"

text \<open>
  \<open>format\<close>, block by block in the order of the source: the emulation banners, the open
  dialog, the page list, the snapshot, the attached request, the attached console
  message, the list of network requests and the list of console messages.
\<close>

definition format_emulation :: "Formatters \<Rightarrow> McpContext \<Rightarrow> error + string list" where
  "format_emulation fmt ctx =
     (case getNetworkConditions ctx of
        Inl e \<Rightarrow> Inl e
      | Inr networkConditions \<Rightarrow>
          (case (case networkConditions of
                   None \<Rightarrow> Inr []
                 | Some label \<Rightarrow>
                     if label = [] then Inr []
                     else (case getNavigationTimeout ctx of
                             Inl e \<Rightarrow> Inl e
                           | Inr t \<Rightarrow>
                               Inr [''## Network emulation'', ''Emulating: '' @ label,
                                    ''Default navigation timeout set to '' @
                                      String_number fmt t @ '' ms''])) of
             Inl e \<Rightarrow> Inl e
           | Inr network_lines \<Rightarrow>
               (case getCpuThrottlingRate ctx of
                  Inl e \<Rightarrow> Inl e
                | Inr cpuThrottlingRate \<Rightarrow>
                    Inr (network_lines @
                      (if cpuThrottlingRate > 1
                       then [''## CPU emulation'',
                             ''Emulating: '' @ String_number fmt cpuThrottlingRate @ ''x slowdown'']
                       else [])))))"

definition format_dialog :: "McpContext \<Rightarrow> string list" where
  "format_dialog ctx =
     (case dialog ctx of
        None \<Rightarrow> []
      | Some d \<Rightarrow>
          (let defaultValueIfNeeded =
                 (if dialog_type d = ''prompt''
                  then '' (default value: '' @ [CHR 0x22] @ dialog_defaultValue d @ [CHR 0x22] @ '')''
                  else [])
           in [''# Open dialog'' @ [CHR 0x0A] @
               dialog_type d @ '': '' @ dialog_message d @ defaultValueIfNeeded @ ''.'' @ [CHR 0x0A] @
               ''Call handle_dialog to handle it before continuing.'']))"

definition format_pages :: "McpResponse \<Rightarrow> McpContext \<Rightarrow> string list" where
  "format_pages response ctx =
     (if includePages response
      then ''## Pages'' #
           map (\<lambda>(idx, page).
                  String_nat idx @ '': '' @ page_url (pageObjs ctx page) @
                  (if int idx = selectedPageIdx ctx then '' [selected]'' else []))
             (enumerate 0 (pages ctx))
      else [])"

definition format_snapshot :: "string option \<Rightarrow> string list" where
  "format_snapshot snapshot_text =
     (case snapshot_text of
        None \<Rightarrow> []
      | Some t \<Rightarrow> if t = [] then [] else [''## Page content'', t])"

definition formatConsoleData :: "Formatters \<Rightarrow> ConsoleMessageData option \<Rightarrow> string list" where
  "formatConsoleData fmt d =
     (case d of None \<Rightarrow> [] | Some cd \<Rightarrow> [formatConsoleEventVerbose fmt cd])"

definition formatNetworkRequestData ::
    "Formatters \<Rightarrow> McpResponse \<Rightarrow> McpContext \<Rightarrow> Bodies \<Rightarrow> error + string list" where
  "formatNetworkRequestData fmt response ctx b =
     (if \<not> truthy_number (attachedNetworkRequestId response) then Inr []
      else (case attachedNetworkRequestId response of
              None \<Rightarrow> Inr []
            | Some reqid \<Rightarrow>
                (case getNetworkRequestById ctx reqid of
                   Inl e \<Rightarrow> Inl e
                 | Inr httpRequest \<Rightarrow>
                     (case map_result
                        (\<lambda>(indent, request).
                            case getNetworkRequestStableId ctx request of
                              Inl e \<Rightarrow> Inl e
                            | Inr stableId \<Rightarrow>
                                Inr (concat (replicate indent ''  '') @
                                     getShortDescriptionForRequest fmt request stableId None))
                        (enumerate 0 (rev (redirectChain httpRequest))) of
                        Inl e \<Rightarrow> Inl e
                      | Inr chain_lines \<Rightarrow>
                          Inr ([''## Request '' @ request_url httpRequest,
                                ''Status:  '' @ getStatusFromRequest fmt httpRequest,
                                ''### Request Headers''] @
                               getFormattedHeaderValue fmt (request_headers httpRequest) @
                               (case requestBody b of
                                  None \<Rightarrow> []
                                | Some body \<Rightarrow>
                                    if body = [] then [] else [''### Request Body'', body]) @
                               (case request_response httpRequest of
                                  None \<Rightarrow> []
                                | Some httpResponse \<Rightarrow>
                                    ''### Response Headers'' #
                                    getFormattedHeaderValue fmt (response_headers httpResponse)) @
                               (case responseBody b of
                                  None \<Rightarrow> []
                                | Some body \<Rightarrow>
                                    if body = [] then [] else [''### Response Body'', body]) @
                               (case request_failure httpRequest of
                                  None \<Rightarrow> []
                                | Some errorText \<Rightarrow> [''### Request failed with'', errorText]) @
                               (if redirectChain httpRequest = [] then []
                                else ''### Redirect chain'' # chain_lines))))))"

definition format_networkRequests ::
    "Formatters \<Rightarrow> McpResponse \<Rightarrow> McpContext \<Rightarrow> error + string list" where
  "format_networkRequests fmt response ctx =
     (case networkRequestsOptions response of
        None \<Rightarrow> Inr []
      | Some opts \<Rightarrow>
          if \<not> nro_include opts then Inr []
          else (case getNetworkRequests ctx (nro_includePreservedRequests opts) of
                  Inl e \<Rightarrow> Inl e
                | Inr requests0 \<Rightarrow>
                    (let requests =
                       (case nro_resourceTypes opts of
                          None \<Rightarrow> requests0
                        | Some ts \<Rightarrow>
                            if ts = [] then requests0
                            else filter (matches_resourceTypes ts) requests0)
                     in if requests \<noteq> []
                        then (case dataWithPagination requests (nro_pagination opts) of
                                (info, shown) \<Rightarrow>
                                  (case map_result
                                     (\<lambda>request.
                                         case getNetworkRequestStableId ctx request of
                                           Inl e \<Rightarrow> Inl e
                                         | Inr stableId \<Rightarrow>
                                             Inr (getShortDescriptionForRequest fmt request stableId
                                                   (Some (Some stableId =
                                                      nro_networkRequestIdInDevToolsUI opts))))
                                     shown of
                                     Inl e \<Rightarrow> Inl e
                                   | Inr request_lines \<Rightarrow>
                                       Inr (''## Network requests'' # info @ request_lines)))
                        else Inr [''## Network requests'', ''No requests found.''])))"

definition format_consoleMessages ::
    "Formatters \<Rightarrow> McpResponse \<Rightarrow> ConsoleMessageData list option \<Rightarrow> string list" where
  "format_consoleMessages fmt response listData =
     (case consoleDataOptions response of
        None \<Rightarrow> []
      | Some opts \<Rightarrow>
          if \<not> cdo_include opts then []
          else (let messages = (case listData of None \<Rightarrow> [] | Some ms \<Rightarrow> ms)
                in if messages \<noteq> []
                   then (case dataWithPagination messages (cdo_pagination opts) of
                           (info, shown) \<Rightarrow>
                             ''## Console messages'' # info @ map (formatConsoleEventShort fmt) shown)
                   else [''## Console messages'', ''<no console messages found>'']))"

definition format ::
    "Formatters \<Rightarrow> string \<Rightarrow> McpResponse \<Rightarrow> McpContext \<Rightarrow> GatheredData \<Rightarrow> error + Content list" where
  "format fmt toolName response ctx gathered =
     (case format_emulation fmt ctx of
        Inl e \<Rightarrow> Inl e
      | Inr emulation_lines \<Rightarrow>
          (case formatNetworkRequestData fmt response ctx (bodies gathered) of
             Inl e \<Rightarrow> Inl e
           | Inr request_lines \<Rightarrow>
               (case format_networkRequests fmt response ctx of
                  Inl e \<Rightarrow> Inl e
                | Inr network_lines \<Rightarrow>
                    Inr (TextContent
                           (join_lines
                              ((''# '' @ toolName @ '' response'') # textResponseLines response @
                               emulation_lines @
                               format_dialog ctx @
                               format_pages response ctx @
                               format_snapshot (formattedSnapshot gathered) @
                               request_lines @
                               formatConsoleData fmt (consoleData gathered) @
                               network_lines @
                               format_consoleMessages fmt response (consoleListData gathered))) #
                         map ImageContent (images response)))))"

definition handle ::
    "Formatters \<Rightarrow> Node \<Rightarrow> string \<Rightarrow> McpResponse \<Rightarrow> McpContext \<Rightarrow>
     (error + Content list) \<times> McpContext" where
  "handle fmt node toolName response ctx =
     (let ctx0 = (if includePages response then createPagesSnapshot ctx else ctx) in
      case gatherSnapshot fmt node response ctx0 of
        (Inl e, ctx1) \<Rightarrow> (Inl e, ctx1)
      | (Inr snapshot_text, ctx1) \<Rightarrow>
          (case gatherBodies fmt response ctx1 of
             Inl e \<Rightarrow> (Inl e, ctx1)
           | Inr b \<Rightarrow>
               (case gatherConsoleData response ctx1 of
                  Inl e \<Rightarrow> (Inl e, ctx1)
                | Inr cd \<Rightarrow>
                    (case gatherConsoleListData response ctx1 of
                       Inl e \<Rightarrow> (Inl e, ctx1)
                     | Inr listData \<Rightarrow>
                         (format fmt toolName response ctx1
                            \<lparr>bodies = b, consoleData = cd, consoleListData = listData,
                             formattedSnapshot = snapshot_text\<rparr>,
                          ctx1)))))"

section \<open>A small session\<close>

text \<open>
  A session with two open pages, the first selected and subscribed to dialogs, as
  \<open>#init\<close> leaves it; a tree of a list box with two options; collectors that hold two
  requests and two console messages; formatters that print the least.
\<close>

definition example_page :: PageObj where
  "example_page =
     \<lparr>page_url = ''https://example.com/'', page_closed = False, dialogListeners = 0,
      defaultTimeout = 30000, defaultNavigationTimeout = 30000\<rparr>"

definition example_tree :: SerializedAXNode where
  "example_tree =
     SerializedAXNode ''listbox'' (Some ''Size'') None 10
       [SerializedAXNode ''option'' (Some ''Small'') None 11 [],
        SerializedAXNode ''option'' (Some ''Large'') (Some (StringValue ''L'')) 12 []]"

definition example_requests :: "HTTPRequest list" where
  "example_requests =
     [HTTPRequest ''https://example.com/'' ''document'' [] None None [],
      HTTPRequest ''https://example.com/a.png'' ''image'' [] None None [],
      HTTPRequest ''https://example.com/b.png'' ''image'' [] None None []]"

definition example_messages :: "ConsoleItem list" where
  "example_messages =
     [Message (ConsoleMessage ''log'' ''hello'' [Inr (JsString ''hello'')]),
      Message (ConsoleMessage ''warning'' ''careful''
         [Inr (JsNumber ''1''), Inl (Error ''Execution context was destroyed'' None), Inr JsNull]),
      PageError (Error ''boom'' None)]"

definition index_of :: "'a list \<Rightarrow> 'a \<Rightarrow> int" where
  "index_of xs x = int (length (takeWhile (\<lambda>y. y \<noteq> x) xs)) + 1"

definition example_collector :: "'r list \<Rightarrow> 'r PageCollector" where
  "example_collector rs =
     \<lparr>getData = (\<lambda>page includePreserved. rs),
      getById = (\<lambda>page i. case at_index rs (i - 1) of
                   None \<Rightarrow> Inl (Error ''Request not found for selected page'' None)
                 | Some r \<Rightarrow> Inr r),
      getIdForResource = (\<lambda>r. Inr (index_of rs r))\<rparr>"

definition example_ctx :: McpContext where
  "example_ctx =
     \<lparr>pages = [0, 1], selectedPageIdx = 0, textSnapshot = None,
      networkConditionsMap = (\<lambda>page. None), cpuThrottlingRateMap = (\<lambda>page. None),
      dialog = None, nextSnapshotId = 1, experimentalDevToolsDebugging = False,
      browserPages = [0, 1],
      pageObjs = (\<lambda>page. if page = 0 then example_page\<lparr>dialogListeners := 1\<rparr> else example_page),
      accessibility_snapshot = (\<lambda>page interestingOnly. Some example_tree),
      elementHandle = (\<lambda>element. if element = 12 then None else Some element),
      networkCollector = example_collector example_requests,
      consoleCollector = example_collector example_messages,
      devToolsRequestId = None, logged = [], files = []\<rparr>"

definition example_formatters :: Formatters where
  "example_formatters =
     \<lparr>getStatusFromRequest = (\<lambda>request. ''[pending]''),
      getFormattedHeaderValue = map (\<lambda>(k, v). ''- '' @ k @ '':'' @ v),
      getShortDescriptionForRequest = (\<lambda>request stableId selected. request_url request),
      getFormattedRequestBody = (\<lambda>request. None),
      getFormattedResponseBody = (\<lambda>httpResponse. None),
      formatConsoleEventShort = data_message,
      formatConsoleEventVerbose = data_message,
      formatA11ySnapshot = node_id,
      String_number = (\<lambda>x. String_int (floor x))\<rparr>"

definition example_node :: Node where
  "example_node =
     \<lparr>mkdtemp = Inr ''/tmp/chrome-devtools-mcp-abc'',
      writeFile_error = (\<lambda>path. None),
      path_join = (\<lambda>a b. a @ ''/'' @ b),
      path_resolve = (\<lambda>path. path)\<rparr>"

text \<open>
  Two continuations of the example session. In the first, the \<open>close_page\<close> tool closes
  page 0 and its response is handled. In the second, a third page is open, the second
  one is selected, the user closes the first tab in the browser, and the response of
  \<open>list_pages\<close> is handled.
\<close>

definition example_dialog :: Dialog where
  "example_dialog = \<lparr>dialog_type = ''alert'', dialog_message = ''hi'', dialog_defaultValue = []\<rparr>"

definition closed_first_page :: McpContext where
  "closed_first_page =
     (case closePage_handler 0 new_McpResponse example_ctx of
        (r, response, ctx) \<Rightarrow>
          snd (handle example_formatters example_node ''close_page'' response ctx))"

definition three_pages :: McpContext where
  "three_pages =
     snd (setSelectedPageIdx (example_ctx\<lparr>pages := [0, 1, 2], browserPages := [0, 1, 2]\<rparr>) 1)"

definition tab_closed :: McpContext where
  "tab_closed =
     snd (handle example_formatters example_node ''list_pages''
            (listPages_handler new_McpResponse) (page_close 0 three_pages))"

section \<open>Decimal strings and snapshot identifiers\<close>

lemma digit_inj: "d < 10 \<Longrightarrow> e < 10 \<Longrightarrow> digit d = digit e \<Longrightarrow> d = e"
proof -
  assume d: "d < 10" and e: "e < 10" and eq: "digit d = digit e"
  have dist: "distinct ''0123456789''" by simp
  have len: "length ''0123456789'' = 10" by simp
  from eq have "''0123456789'' ! d = ''0123456789'' ! e" by (simp add: digit_def)
  with dist d e len show "d = e" by (metis nth_eq_iff_index_eq)
qed

lemma digit_in: "d < 10 \<Longrightarrow> digit d \<in> set ''0123456789''"
  unfolding digit_def by (rule nth_mem) simp

lemma digit_not_underscore: "d < 10 \<Longrightarrow> digit d \<noteq> CHR ''_''"
  using digit_in [of d] by auto

lemma String_nat_nonempty: "String_nat n \<noteq> []"
  by (subst String_nat.simps) simp

lemma String_nat_no_underscore: "CHR ''_'' \<notin> set (String_nat n)"
proof (induction n rule: String_nat.induct)
  case (1 n)
  show ?case
  proof (cases "n < 10")
    case True
    then show ?thesis
      using digit_not_underscore [of n] by (subst String_nat.simps) auto
  next
    case False
    have "n mod 10 < 10" by simp
    then have "digit (n mod 10) \<noteq> CHR ''_''" by (rule digit_not_underscore)
    with False 1 show ?thesis
      by (subst String_nat.simps) auto
  qed
qed

lemma String_nat_inj: "String_nat a = String_nat b \<Longrightarrow> a = b"
proof (induction a arbitrary: b rule: String_nat.induct)
  case (1 a)
  show ?case
  proof (cases "a < 10")
    case a: True
    show ?thesis
    proof (cases "b < 10")
      case True
      with a 1(2) show ?thesis
        by (simp add: String_nat.simps [of a] String_nat.simps [of b] digit_inj)
    next
      case False
      with a 1(2) String_nat_nonempty [of "b div 10"] show ?thesis
        by (simp add: String_nat.simps [of a] String_nat.simps [of b])
    qed
  next
    case a: False
    show ?thesis
    proof (cases "b < 10")
      case True
      with a 1(2) String_nat_nonempty [of "a div 10"] show ?thesis
        by (simp add: String_nat.simps [of a] String_nat.simps [of b])
    next
      case False
      with a 1(2) have eq: "String_nat (a div 10) = String_nat (b div 10)"
        and dg: "digit (a mod 10) = digit (b mod 10)"
        by (simp_all add: String_nat.simps [of a] String_nat.simps [of b])
      from 1(1) [OF a eq] have d: "a div 10 = b div 10" .
      have "a mod 10 = b mod 10" using dg by (intro digit_inj) simp_all
      with d show ?thesis by (metis div_mult_mod_eq)
    qed
  qed
qed

lemma takeWhile_until: "x \<notin> set xs \<Longrightarrow> takeWhile (\<lambda>c. c \<noteq> x) (xs @ x # ys) = xs"
  by (induction xs) auto

lemma split_first_uid: "split_first (String_nat s @ CHR ''_'' # rest) = String_nat s"
  unfolding split_first_def using String_nat_no_underscore [of s]
  by (simp add: takeWhile_until)

lemma keys_of_update:
  "keys_of sid m \<Longrightarrow> split_first k = String_nat sid \<Longrightarrow> keys_of sid (AList.update k v m)"
  by (auto simp: keys_of_def dom_update)

lemma assignIds_keys:
  "keys_of sid (snd st) \<Longrightarrow> keys_of sid (snd (snd (assignIds sid node st)))"
  "keys_of sid (snd st) \<Longrightarrow> keys_of sid (snd (snd (assignIds_children sid nodes st)))"
proof (induction sid node st and sid nodes st rule: assignIds_assignIds_children.induct)
  case (1 sid nrole nname nvalue nelement nchildren idCounter idMap)
  then show ?case
    by (auto simp: split_first_uid Let_def split: prod.splits intro!: keys_of_update)
next
  case (2 sid st)
  then show ?case by simp
next
  case (3 sid child rest st)
  then show ?case by (auto split: prod.splits)
qed

lemma update_nonempty: "AList.update k v m \<noteq> []"
  by (cases m) auto

lemma assignIds_nonempty: "snd (snd (assignIds sid node st)) \<noteq> []"
  by (cases node; cases st) (auto simp: Let_def update_nonempty split: prod.splits)

section \<open>Timeouts follow the throttling settings\<close>

lemma updateSelectedPageTimeouts_derived:
  "updateSelectedPageTimeouts ctx = (Inr u, ctx') \<Longrightarrow> timeouts_derived ctx'"
  by (auto simp: updateSelectedPageTimeouts_def timeouts_derived_def getCpuThrottlingRate_def
      getNetworkConditions_def setDefaultTimeout_def setDefaultNavigationTimeout_def
      getSelectedPage_def Let_def
      split: sum.splits option.splits if_splits)

lemma setSelectedPageIdx_derived:
  "setSelectedPageIdx ctx idx = (Inr u, ctx') \<Longrightarrow> timeouts_derived ctx'"
  unfolding setSelectedPageIdx_def
  by (auto simp: Let_def split: sum.splits dest: updateSelectedPageTimeouts_derived)

lemma setNetworkConditions_derived:
  "setNetworkConditions ctx c = (Inr u, ctx') \<Longrightarrow> timeouts_derived ctx'"
  unfolding setNetworkConditions_def
  by (auto split: sum.splits dest: updateSelectedPageTimeouts_derived)

lemma setCpuThrottlingRate_derived:
  "setCpuThrottlingRate ctx r = (Inr u, ctx') \<Longrightarrow> timeouts_derived ctx'"
  unfolding setCpuThrottlingRate_def
  by (auto split: sum.splits dest: updateSelectedPageTimeouts_derived)

text \<open>
  Claim C6. Selecting a page, setting the network conditions and setting the CPU
  throttling rate each leave the selected page with the derived timeouts: the default
  timeout is 5000 ms times the page's CPU-throttling rate, the default navigation
  timeout is 10000 ms times the multiplier of the page's network condition. The
  multiplier is 1 for no condition, for \<open>Fast 4G\<close> and for any label that is not one of
  the four, 2.5 for \<open>Slow 4G\<close>, 5 for \<open>Fast 3G\<close> and 10 for \<open>Slow 3G\<close>.
\<close>

theorem timeouts_rederived:
  "getNetworkMultiplierFromString None = 1 \<and>
   getNetworkMultiplierFromString (Some ''Fast 4G'') = 1 \<and>
   getNetworkMultiplierFromString (Some ''Slow 4G'') = 5 / 2 \<and>
   getNetworkMultiplierFromString (Some ''Fast 3G'') = 5 \<and>
   getNetworkMultiplierFromString (Some ''Slow 3G'') = 10 \<and>
   (label \<notin> {''Fast 4G'', ''Slow 4G'', ''Fast 3G'', ''Slow 3G''} \<longrightarrow>
      getNetworkMultiplierFromString (Some label) = 1) \<and>
   (setSelectedPageIdx ctx idx = (Inr (), ctx1) \<longrightarrow> timeouts_derived ctx1) \<and>
   (setNetworkConditions ctx conditions = (Inr (), ctx2) \<longrightarrow> timeouts_derived ctx2) \<and>
   (setCpuThrottlingRate ctx rate = (Inr (), ctx3) \<longrightarrow> timeouts_derived ctx3)"
  using setSelectedPageIdx_derived setNetworkConditions_derived setCpuThrottlingRate_derived
  by (simp add: getNetworkMultiplierFromString_def)

lemmas ctx_eval = getSelectedPage_def at_index_def example_ctx_def example_page_def
  updateSelectedPageTimeouts_def getCpuThrottlingRate_def getNetworkConditions_def
  setDefaultTimeout_def setDefaultNavigationTimeout_def page_off_dialog_def page_on_dialog_def
  DEFAULT_TIMEOUT_def NAVIGATION_TIMEOUT_def getNetworkMultiplierFromString_def Let_def

text \<open>
  The theorem at the example session: selecting the second page, emulating \<open>Slow 4G\<close>
  (a navigation timeout of 25000 ms) and a fourfold CPU slowdown (a timeout of 20000 ms).
\<close>

theorem timeouts_rederived_witness:
  "fst (setSelectedPageIdx example_ctx 1) = Inr () \<and>
   timeouts_derived (snd (setSelectedPageIdx example_ctx 1)) \<and>
   fst (setNetworkConditions example_ctx (Some ''Slow 4G'')) = Inr () \<and>
   timeouts_derived (snd (setNetworkConditions example_ctx (Some ''Slow 4G''))) \<and>
   defaultNavigationTimeout
     (pageObjs (snd (setNetworkConditions example_ctx (Some ''Slow 4G''))) 0) = 25000 \<and>
   fst (setCpuThrottlingRate example_ctx 4) = Inr () \<and>
   timeouts_derived (snd (setCpuThrottlingRate example_ctx 4)) \<and>
   defaultTimeout (pageObjs (snd (setCpuThrottlingRate example_ctx 4)) 0) = 20000 \<and>
   getNetworkMultiplierFromString (Some ''3G'') = 1"
proof -
  let ?s = "setSelectedPageIdx example_ctx 1"
  let ?n = "setNetworkConditions example_ctx (Some ''Slow 4G'')"
  let ?c = "setCpuThrottlingRate example_ctx 4"
  have a: "fst ?s = Inr ()"
    by (simp add: setSelectedPageIdx_def ctx_eval)
  have b: "fst ?n = Inr ()"
    by (simp add: setNetworkConditions_def ctx_eval)
  have c: "fst ?c = Inr ()"
    by (simp add: setCpuThrottlingRate_def ctx_eval)
  have d: "defaultNavigationTimeout (pageObjs (snd ?n) 0) = 25000"
    by (simp add: setNetworkConditions_def ctx_eval)
  have e: "defaultTimeout (pageObjs (snd ?c) 0) = 20000"
    by (simp add: setCpuThrottlingRate_def ctx_eval)
  have f: "''3G'' \<notin> {''Fast 4G'', ''Slow 4G'', ''Fast 3G'', ''Slow 3G''}" by simp
  have a': "?s = (Inr (), snd ?s)" using a by (metis prod.collapse)
  have b': "?n = (Inr (), snd ?n)" using b by (metis prod.collapse)
  have c': "?c = (Inr (), snd ?c)" using c by (metis prod.collapse)
  note T = timeouts_rederived [of "''3G''" example_ctx 1 "snd ?s" "Some ''Slow 4G''" "snd ?n"
      4 "snd ?c"]
  from T a' have ta: "timeouts_derived (snd ?s)" by blast
  from T b' have tb: "timeouts_derived (snd ?n)" by blast
  from T c' have tc: "timeouts_derived (snd ?c)" by blast
  from T f have tf: "getNetworkMultiplierFromString (Some ''3G'') = 1" by blast
  from a b c d e ta tb tc tf show ?thesis by blast
qed

section \<open>Saving an image of an unsupported MIME type\<close>

lemma getExtension_unsupported:
  "mimeType \<notin> {''image/png'', ''image/jpeg'', ''image/webp''} \<Longrightarrow>
   getExtensionFromMimeType mimeType =
     Inl (Error (''No mapping for Mime type '' @ mimeType @ ''.'') None)"
  by (simp add: getExtensionFromMimeType_def)

lemma saveTemporaryFile_unsupported:
  assumes "getExtensionFromMimeType mimeType = Inl err"
  shows "(\<exists>e. fst (saveTemporaryFile node ctx bytes mimeType) = Inl (Error SAVE_FAILED (Some e)))"
    and "files (snd (saveTemporaryFile node ctx bytes mimeType)) = files ctx"
    and "mkdtemp node = Inr dir \<Longrightarrow>
         fst (saveTemporaryFile node ctx bytes mimeType) = Inl (Error SAVE_FAILED (Some err))"
  using assms by (cases "mkdtemp node"; simp add: saveTemporaryFile_def)+

lemma saveTemporaryFile_supported:
  assumes "mkdtemp node = Inr dir" and "getExtensionFromMimeType mimeType = Inr ext"
    and "writeFile_error node (path_join node dir (''screenshot.'' @ ext)) = None"
  shows "saveTemporaryFile node ctx bytes mimeType =
        (Inr (path_join node dir (''screenshot.'' @ ext)),
         ctx\<lparr>files := files ctx @ [(path_join node dir (''screenshot.'' @ ext), bytes)]\<rparr>)"
  using assms by (simp add: saveTemporaryFile_def)

lemma getExtension_supported:
  "ext \<in> {''png'', ''jpeg'', ''webp''} \<Longrightarrow> getExtensionFromMimeType (''image/'' @ ext) = Inr ext"
  by (auto simp: getExtensionFromMimeType_def)

text \<open>
  Claim C8. \<open>image/png\<close>, \<open>image/jpeg\<close> and \<open>image/webp\<close> map to the extensions \<open>png\<close>,
  \<open>jpeg\<close> and \<open>webp\<close>. For any other MIME type \<open>getExtensionFromMimeType\<close> throws, and
  \<open>saveTemporaryFile\<close> fails towards its caller with the error it wraps around the cause
  and writes no file; when the temporary directory could be made, the cause is the
  missing mapping. For the three supported types the file is written as
  \<open>screenshot.<ext>\<close> in the temporary directory.
\<close>

theorem unsupported_mime_type_is_error:
  "getExtensionFromMimeType ''image/png'' = Inr ''png'' \<and>
   getExtensionFromMimeType ''image/jpeg'' = Inr ''jpeg'' \<and>
   getExtensionFromMimeType ''image/webp'' = Inr ''webp'' \<and>
   (mimeType \<notin> {''image/png'', ''image/jpeg'', ''image/webp''} \<longrightarrow>
      getExtensionFromMimeType mimeType =
        Inl (Error (''No mapping for Mime type '' @ mimeType @ ''.'') None) \<and>
      (\<exists>err. fst (saveTemporaryFile node ctx bytes mimeType) = Inl (Error SAVE_FAILED (Some err))) \<and>
      files (snd (saveTemporaryFile node ctx bytes mimeType)) = files ctx \<and>
      (\<forall>dir. mkdtemp node = Inr dir \<longrightarrow>
         fst (saveTemporaryFile node ctx bytes mimeType) =
           Inl (Error SAVE_FAILED
             (Some (Error (''No mapping for Mime type '' @ mimeType @ ''.'') None))))) \<and>
   (mkdtemp node = Inr tmp \<and> ext \<in> {''png'', ''jpeg'', ''webp''} \<and>
    writeFile_error node (path_join node tmp (''screenshot.'' @ ext)) = None \<longrightarrow>
      saveTemporaryFile node ctx bytes (''image/'' @ ext) =
        (Inr (path_join node tmp (''screenshot.'' @ ext)),
         ctx\<lparr>files := files ctx @ [(path_join node tmp (''screenshot.'' @ ext), bytes)]\<rparr>))"
proof (intro conjI impI allI)
  show "getExtensionFromMimeType ''image/png'' = Inr ''png''"
    by (simp add: getExtensionFromMimeType_def)
  show "getExtensionFromMimeType ''image/jpeg'' = Inr ''jpeg''"
    by (simp add: getExtensionFromMimeType_def)
  show "getExtensionFromMimeType ''image/webp'' = Inr ''webp''"
    by (simp add: getExtensionFromMimeType_def)
next
  assume m: "mimeType \<notin> {''image/png'', ''image/jpeg'', ''image/webp''}"
  note u = getExtension_unsupported [OF m]
  show "getExtensionFromMimeType mimeType =
        Inl (Error (''No mapping for Mime type '' @ mimeType @ ''.'') None)" by (rule u)
  show "\<exists>err. fst (saveTemporaryFile node ctx bytes mimeType) = Inl (Error SAVE_FAILED (Some err))"
    by (rule saveTemporaryFile_unsupported(1) [OF u])
  show "files (snd (saveTemporaryFile node ctx bytes mimeType)) = files ctx"
    by (rule saveTemporaryFile_unsupported(2) [OF u])
  fix dir assume "mkdtemp node = Inr dir"
  then show "fst (saveTemporaryFile node ctx bytes mimeType) =
           Inl (Error SAVE_FAILED
             (Some (Error (''No mapping for Mime type '' @ mimeType @ ''.'') None)))"
    by (rule saveTemporaryFile_unsupported(3) [OF u])
next
  assume h: "mkdtemp node = Inr tmp \<and> ext \<in> {''png'', ''jpeg'', ''webp''} \<and>
    writeFile_error node (path_join node tmp (''screenshot.'' @ ext)) = None"
  then have e: "getExtensionFromMimeType (''image/'' @ ext) = Inr ext"
    by (intro getExtension_supported) simp
  from h show "saveTemporaryFile node ctx bytes (''image/'' @ ext) =
        (Inr (path_join node tmp (''screenshot.'' @ ext)),
         ctx\<lparr>files := files ctx @ [(path_join node tmp (''screenshot.'' @ ext), bytes)]\<rparr>)"
    by (intro saveTemporaryFile_supported e) simp_all
qed

text \<open>The theorem at \<open>image/gif\<close>, which fails, and at \<open>image/jpeg\<close>, which is saved.\<close>

theorem unsupported_mime_type_is_error_witness:
  "fst (saveTemporaryFile example_node example_ctx ''GIF89a'' ''image/gif'') =
     Inl (Error SAVE_FAILED (Some (Error ''No mapping for Mime type image/gif.'' None))) \<and>
   files (snd (saveTemporaryFile example_node example_ctx ''GIF89a'' ''image/gif'')) = [] \<and>
   fst (saveTemporaryFile example_node example_ctx ''GIF89a'' ''image/jpeg'') =
     Inr ''/tmp/chrome-devtools-mcp-abc/screenshot.jpeg''"
proof -
  have a: "''image/gif'' \<notin> {''image/png'', ''image/jpeg'', ''image/webp''}" by simp
  have b: "mkdtemp example_node = Inr ''/tmp/chrome-devtools-mcp-abc''"
    by (simp add: example_node_def)
  have c: "''jpeg'' \<in> {''png'', ''jpeg'', ''webp''}" by simp
  have d: "writeFile_error example_node
      (path_join example_node ''/tmp/chrome-devtools-mcp-abc'' (''screenshot.'' @ ''jpeg'')) = None"
    by (simp add: example_node_def)
  have e: "files example_ctx = []" by (simp add: example_ctx_def)
  have f: "path_join example_node ''/tmp/chrome-devtools-mcp-abc'' (''screenshot.'' @ ''jpeg'') =
    ''/tmp/chrome-devtools-mcp-abc/screenshot.jpeg''" by (simp add: example_node_def)
  have g: "''No mapping for Mime type '' @ ''image/gif'' @ ''.'' =
    ''No mapping for Mime type image/gif.''" by simp
  have h: "''image/'' @ ''jpeg'' = ''image/jpeg''" by simp
  note T = unsupported_mime_type_is_error [of "''image/gif''" example_node example_ctx "''GIF89a''"
      "''/tmp/chrome-devtools-mcp-abc''" "''jpeg''"]
  from T a b have r1: "fst (saveTemporaryFile example_node example_ctx ''GIF89a'' ''image/gif'') =
     Inl (Error SAVE_FAILED (Some (Error (''No mapping for Mime type '' @ ''image/gif'' @ ''.'') None)))"
    by blast
  from T a have r2: "files (snd (saveTemporaryFile example_node example_ctx ''GIF89a'' ''image/gif'')) =
     files example_ctx" by blast
  from T b c d have r3: "saveTemporaryFile example_node example_ctx ''GIF89a'' (''image/'' @ ''jpeg'') =
        (Inr (path_join example_node ''/tmp/chrome-devtools-mcp-abc'' (''screenshot.'' @ ''jpeg'')),
         example_ctx\<lparr>files := files example_ctx @
           [(path_join example_node ''/tmp/chrome-devtools-mcp-abc'' (''screenshot.'' @ ''jpeg''),
             ''GIF89a'')]\<rparr>)"
    by blast
  from r1 have r1': "fst (saveTemporaryFile example_node example_ctx ''GIF89a'' ''image/gif'') =
     Inl (Error SAVE_FAILED (Some (Error ''No mapping for Mime type image/gif.'' None)))"
    unfolding g .
  from r3 have r3': "fst (saveTemporaryFile example_node example_ctx ''GIF89a'' ''image/jpeg'') =
     Inr ''/tmp/chrome-devtools-mcp-abc/screenshot.jpeg''"
    unfolding h f by simp
  from r1' r2 r3' e show ?thesis by simp
qed

section \<open>The last open page cannot be closed\<close>

text \<open>
  Claim C3. With exactly one page open, \<open>closePage\<close> throws the last-page error for every
  index and leaves the whole session as it was (the page list included); the
  \<open>close_page\<close> tool catches that error, appends its message to the response lines and
  returns normally.
\<close>

theorem closePage_last_page:
  "length (pages ctx) = 1 \<longrightarrow>
     closePage ctx idx = (Inl (Error CLOSE_PAGE_ERROR None), ctx) \<and>
     closePage_handler idx response ctx =
       (Inr (),
        response\<lparr>textResponseLines := textResponseLines response @
            [''The last open page cannot be closed. It is fine to keep it open.''],
          includePages := True\<rparr>,
        ctx)"
  by (simp add: closePage_def closePage_handler_def CLOSE_PAGE_ERROR_def setIncludePages_def
      appendResponseLine_def)

text \<open>The theorem at a session with a single page, for a valid and for an invalid index.\<close>

theorem closePage_last_page_witness:
  "length (pages (example_ctx\<lparr>pages := [0]\<rparr>)) = 1 \<and>
   closePage (example_ctx\<lparr>pages := [0]\<rparr>) 0 =
     (Inl (Error CLOSE_PAGE_ERROR None), example_ctx\<lparr>pages := [0]\<rparr>) \<and>
   pages (snd (closePage (example_ctx\<lparr>pages := [0]\<rparr>) 7)) = [0] \<and>
   fst (closePage_handler 0 new_McpResponse (example_ctx\<lparr>pages := [0]\<rparr>)) = Inr () \<and>
   textResponseLines (fst (snd (closePage_handler 0 new_McpResponse (example_ctx\<lparr>pages := [0]\<rparr>)))) =
     [''The last open page cannot be closed. It is fine to keep it open.'']"
proof -
  have a: "length (pages (example_ctx\<lparr>pages := [0]\<rparr>)) = 1" by simp
  from closePage_last_page [of "example_ctx\<lparr>pages := [0]\<rparr>" 0 new_McpResponse]
    closePage_last_page [of "example_ctx\<lparr>pages := [0]\<rparr>" 7 new_McpResponse] a
  show ?thesis by (simp add: new_McpResponse_def)
qed

section \<open>Stale and unknown uids\<close>

lemma keys_of_Nil: "keys_of sid []"
  by (simp add: keys_of_def)

lemma createTextSnapshot_created:
  assumes "createTextSnapshot ctx v = (Inr (), ctx1)"
    and "nextSnapshotId ctx1 \<noteq> nextSnapshotId ctx"
  shows "\<exists>snap. textSnapshot ctx1 = Some snap \<and>
           snapshotId snap = String_nat (nextSnapshotId ctx) \<and>
           keys_of (nextSnapshotId ctx) (idToNode snap) \<and> idToNode snap \<noteq> []"
proof -
  from assms obtain page rootNode where
    r: "accessibility_snapshot ctx page (\<not> v) = Some rootNode"
    and p: "getSelectedPage ctx = Inr page"
    by (auto simp: createTextSnapshot_def split: sum.splits option.splits)
  obtain n c m where a: "assignIds (nextSnapshotId ctx) rootNode (0, []) = (n, c, m)"
    by (cases "assignIds (nextSnapshotId ctx) rootNode (0, [])") auto
  from assignIds_keys(1) [of "nextSnapshotId ctx" "(0, [])" rootNode] a
  have k: "keys_of (nextSnapshotId ctx) m" by (simp add: keys_of_Nil)
  from assignIds_nonempty [of "nextSnapshotId ctx" rootNode "(0, [])"] a
  have ne: "m \<noteq> []" by simp
  from assms(1) r p a have "textSnapshot ctx1 =
      Some \<lparr>root = n, idToNode = m, snapshotId = String_nat (nextSnapshotId ctx)\<rparr>"
    by (auto simp: createTextSnapshot_def Let_def)
  with k ne show ?thesis by simp
qed

lemma getElementByUid_stale:
  "textSnapshot ctx = Some snap \<Longrightarrow> idToNode snap \<noteq> [] \<Longrightarrow>
   split_first uid \<noteq> snapshotId snap \<Longrightarrow> getElementByUid ctx uid = Inl STALE_SNAPSHOT"
  by (auto simp: getElementByUid_def)

lemma getElementByUid_absent:
  "textSnapshot ctx = Some snap \<Longrightarrow> map_of (idToNode snap) uid = None \<Longrightarrow>
   getElementByUid ctx uid \<in> {Inl NO_SNAPSHOT, Inl STALE_SNAPSHOT, Inl NO_SUCH_ELEMENT}"
  by (auto simp: getElementByUid_def)

lemma getElementByUid_detached:
  "textSnapshot ctx = Some snap \<Longrightarrow> map_of (idToNode snap) uid = Some node \<Longrightarrow>
   elementHandle ctx (node_element node) = None \<Longrightarrow>
   getElementByUid ctx uid \<in> {Inl NO_SNAPSHOT, Inl STALE_SNAPSHOT, Inl NO_SUCH_ELEMENT}"
  by (auto simp: getElementByUid_def)

lemma stale_after_newer_snapshot:
  assumes s1: "createTextSnapshot ctx0 v1 = (Inr (), ctx1)"
    and n1: "nextSnapshotId ctx1 \<noteq> nextSnapshotId ctx0"
    and u: "uid \<in> set (issued_uids ctx1)"
    and later: "nextSnapshotId ctx1 \<le> nextSnapshotId later"
    and s2: "createTextSnapshot later v2 = (Inr (), ctx2)"
    and n2: "nextSnapshotId ctx2 \<noteq> nextSnapshotId later"
  shows "getElementByUid ctx2 uid = Inl STALE_SNAPSHOT"
proof -
  from createTextSnapshot_created [OF s1 n1] obtain snap1 where
    t1: "textSnapshot ctx1 = Some snap1" and k1: "keys_of (nextSnapshotId ctx0) (idToNode snap1)"
    by blast
  from createTextSnapshot_created [OF s2 n2] obtain snap2 where
    t2: "textSnapshot ctx2 = Some snap2" and i2: "snapshotId snap2 = String_nat (nextSnapshotId later)"
    and ne2: "idToNode snap2 \<noteq> []"
    by blast
  from u t1 k1 have p: "split_first uid = String_nat (nextSnapshotId ctx0)"
    by (auto simp: issued_uids_def keys_of_def)
  from s1 n1 have "nextSnapshotId ctx1 = nextSnapshotId ctx0 + 1"
    by (auto simp: createTextSnapshot_def Let_def split: sum.splits option.splits prod.splits)
  with later have "nextSnapshotId ctx0 \<noteq> nextSnapshotId later" by simp
  then have "String_nat (nextSnapshotId ctx0) \<noteq> String_nat (nextSnapshotId later)"
    using String_nat_inj by blast
  with p i2 have "split_first uid \<noteq> snapshotId snap2" by simp
  with t2 ne2 show ?thesis by (rule getElementByUid_stale)
qed

text \<open>
  Claim C1. \<open>getElementByUid(uid)\<close> fails with "no snapshot" while there is no snapshot;
  with a snapshot (whose map is never empty when \<open>createTextSnapshot\<close> made it, by
  \<open>createTextSnapshot_created\<close>), it fails with the staleness error when the part of
  \<open>uid\<close> before the underscore is not the snapshot's id; it fails when \<open>uid\<close> is not a key of the snapshot's
  map, and when the node's element handle resolves to nothing. A uid issued by a snapshot
  is stale once a later \<open>createTextSnapshot\<close> has made a snapshot, whatever tree that
  snapshot holds: \<open>ctxb\<close> is the session right after the first snapshot, \<open>ctxc\<close> any later
  session (the counter \<open>#nextSnapshotId\<close> never decreases), \<open>ctxd\<close> the session after the
  second snapshot.
\<close>

theorem getElementByUid_fails:
  "(textSnapshot ctx = None \<longrightarrow> getElementByUid ctx uid = Inl NO_SNAPSHOT) \<and>
   (textSnapshot ctx = Some snap \<and> idToNode snap \<noteq> [] \<and> split_first uid \<noteq> snapshotId snap \<longrightarrow>
      getElementByUid ctx uid = Inl STALE_SNAPSHOT) \<and>
   (textSnapshot ctx = Some snap \<and> map_of (idToNode snap) uid = None \<longrightarrow>
      getElementByUid ctx uid \<in> {Inl NO_SNAPSHOT, Inl STALE_SNAPSHOT, Inl NO_SUCH_ELEMENT}) \<and>
   (textSnapshot ctx = Some snap \<and> map_of (idToNode snap) uid = Some node \<and>
    elementHandle ctx (node_element node) = None \<longrightarrow>
      getElementByUid ctx uid \<in> {Inl NO_SNAPSHOT, Inl STALE_SNAPSHOT, Inl NO_SUCH_ELEMENT}) \<and>
   (createTextSnapshot ctxa va = (Inr (), ctxb) \<and> nextSnapshotId ctxb \<noteq> nextSnapshotId ctxa \<and>
    issued \<in> set (issued_uids ctxb) \<and>
    nextSnapshotId ctxb \<le> nextSnapshotId ctxc \<and>
    createTextSnapshot ctxc vb = (Inr (), ctxd) \<and> nextSnapshotId ctxd \<noteq> nextSnapshotId ctxc \<longrightarrow>
      getElementByUid ctxd issued = Inl STALE_SNAPSHOT)"
proof (intro conjI impI)
  assume "textSnapshot ctx = None"
  then show "getElementByUid ctx uid = Inl NO_SNAPSHOT" by (simp add: getElementByUid_def)
next
  assume "textSnapshot ctx = Some snap \<and> idToNode snap \<noteq> [] \<and> split_first uid \<noteq> snapshotId snap"
  then show "getElementByUid ctx uid = Inl STALE_SNAPSHOT"
    by (intro getElementByUid_stale [of ctx snap]) simp_all
next
  assume "textSnapshot ctx = Some snap \<and> map_of (idToNode snap) uid = None"
  then show "getElementByUid ctx uid \<in> {Inl NO_SNAPSHOT, Inl STALE_SNAPSHOT, Inl NO_SUCH_ELEMENT}"
    by (intro getElementByUid_absent [of ctx snap]) simp_all
next
  assume "textSnapshot ctx = Some snap \<and> map_of (idToNode snap) uid = Some node \<and>
    elementHandle ctx (node_element node) = None"
  then show "getElementByUid ctx uid \<in> {Inl NO_SNAPSHOT, Inl STALE_SNAPSHOT, Inl NO_SUCH_ELEMENT}"
    by (intro getElementByUid_detached [of ctx snap uid node]) simp_all
next
  assume "createTextSnapshot ctxa va = (Inr (), ctxb) \<and> nextSnapshotId ctxb \<noteq> nextSnapshotId ctxa \<and>
    issued \<in> set (issued_uids ctxb) \<and>
    nextSnapshotId ctxb \<le> nextSnapshotId ctxc \<and>
    createTextSnapshot ctxc vb = (Inr (), ctxd) \<and> nextSnapshotId ctxd \<noteq> nextSnapshotId ctxc"
  then show "getElementByUid ctxd issued = Inl STALE_SNAPSHOT"
    by (intro stale_after_newer_snapshot [of ctxa va ctxb issued ctxc vb ctxd]) simp_all
qed

lemma createTextSnapshot_ok:
  "getSelectedPage ctx = Inr page \<Longrightarrow> accessibility_snapshot ctx page (\<not> v) = Some rootNode \<Longrightarrow>
   createTextSnapshot ctx v =
     (Inr (),
      ctx\<lparr>nextSnapshotId := nextSnapshotId ctx + 1,
          textSnapshot := Some
            \<lparr>root = fst (assignIds (nextSnapshotId ctx) rootNode (0, [])),
             idToNode = snd (snd (assignIds (nextSnapshotId ctx) rootNode (0, []))),
             snapshotId = String_nat (nextSnapshotId ctx)\<rparr>\<rparr>)"
  by (simp add: createTextSnapshot_def Let_def split: prod.splits)

lemma example_selected: "getSelectedPage (example_ctx\<lparr>nextSnapshotId := n, textSnapshot := t\<rparr>) = Inr 0"
  by (simp add: getSelectedPage_def at_index_def example_ctx_def example_page_def)

lemma example_selected0: "getSelectedPage example_ctx = Inr 0"
  by (simp add: getSelectedPage_def at_index_def example_ctx_def example_page_def)

lemma example_assignIds:
  "assignIds sid example_tree (0, []) =
     (TextSnapshotNode (String_nat sid @ ''_0'') ''listbox'' (Some ''Size'') None 10
        [TextSnapshotNode (String_nat sid @ ''_1'') ''option'' (Some ''Small'')
           (Some (StringValue ''Small'')) 11 [],
         TextSnapshotNode (String_nat sid @ ''_2'') ''option'' (Some ''Large'')
           (Some (StringValue ''Large'')) 12 []],
      3,
      [(String_nat sid @ ''_1'',
        TextSnapshotNode (String_nat sid @ ''_1'') ''option'' (Some ''Small'')
           (Some (StringValue ''Small'')) 11 []),
       (String_nat sid @ ''_2'',
        TextSnapshotNode (String_nat sid @ ''_2'') ''option'' (Some ''Large'')
           (Some (StringValue ''Large'')) 12 []),
       (String_nat sid @ ''_0'',
        TextSnapshotNode (String_nat sid @ ''_0'') ''listbox'' (Some ''Size'') None 10
        [TextSnapshotNode (String_nat sid @ ''_1'') ''option'' (Some ''Small'')
           (Some (StringValue ''Small'')) 11 [],
         TextSnapshotNode (String_nat sid @ ''_2'') ''option'' (Some ''Large'')
           (Some (StringValue ''Large'')) 12 []])])"
  by (simp add: example_tree_def Let_def String_nat.simps [of 0] String_nat.simps [of 1]
      String_nat.simps [of 2] String_nat.simps [of "Suc 0"] String_nat.simps [of "Suc (Suc 0)"]
      digit_def)


lemma String_nat_small:
  "String_nat 0 = ''0''" "String_nat 1 = ''1''" "String_nat 2 = ''2''" "String_nat 3 = ''3''"
  "String_nat (Suc 0) = ''1''" "String_nat (Suc (Suc 0)) = ''2''"
  "String_nat (Suc (Suc (Suc 0))) = ''3''"
  by (simp_all add: String_nat.simps [of 0] String_nat.simps [of "Suc 0"] String_nat.simps [of 2]
      String_nat.simps [of 3] String_nat.simps [of "Suc (Suc 0)"]
      String_nat.simps [of "Suc (Suc (Suc 0))"] digit_def)

lemma example_first_snapshot:
  "createTextSnapshot example_ctx False =
     (Inr (),
      example_ctx\<lparr>nextSnapshotId := 2,
          textSnapshot := Some
            \<lparr>root = fst (assignIds 1 example_tree (0, [])),
             idToNode = snd (snd (assignIds 1 example_tree (0, []))),
             snapshotId = ''1''\<rparr>\<rparr>)"
proof -
  have a: "accessibility_snapshot example_ctx 0 (\<not> False) = Some example_tree"
    by (simp add: example_ctx_def)
  have n: "nextSnapshotId example_ctx = 1" by (simp add: example_ctx_def)
  have s: "String_nat 1 = ''1''" by (rule String_nat_small)
  from createTextSnapshot_ok [OF example_selected0 a] show ?thesis
    unfolding n s by simp
qed

lemma example_second_snapshot:
  "createTextSnapshot (example_ctx\<lparr>nextSnapshotId := 2, textSnapshot := t\<rparr>) False =
     (Inr (),
      example_ctx\<lparr>nextSnapshotId := 3,
          textSnapshot := Some
            \<lparr>root = fst (assignIds 2 example_tree (0, [])),
             idToNode = snd (snd (assignIds 2 example_tree (0, []))),
             snapshotId = ''2''\<rparr>\<rparr>)"
proof -
  let ?c = "example_ctx\<lparr>nextSnapshotId := 2, textSnapshot := t\<rparr>"
  have a: "accessibility_snapshot ?c 0 (\<not> False) = Some example_tree"
    by (simp add: example_ctx_def)
  have n: "nextSnapshotId ?c = 2" by simp
  have s: "String_nat 2 = ''2''" by (rule String_nat_small)
  from createTextSnapshot_ok [OF example_selected [where n = 2 and t = t] a] show ?thesis
    unfolding n s by simp
qed

text \<open>
  The theorem at the example session: no snapshot at first; after one snapshot the root
  \<open>1_0\<close> resolves, \<open>0_0\<close> is stale, \<open>1_7\<close> is unknown and \<open>1_2\<close> is detached; after a second
  snapshot of the same tree \<open>1_0\<close> is stale and \<open>2_0\<close> resolves.
\<close>

theorem getElementByUid_fails_witness:
  "getElementByUid example_ctx ''1_0'' = Inl NO_SNAPSHOT \<and>
   getElementByUid (snd (createTextSnapshot example_ctx False)) ''1_0'' = Inr 10 \<and>
   getElementByUid (snd (createTextSnapshot example_ctx False)) ''0_0'' = Inl STALE_SNAPSHOT \<and>
   getElementByUid (snd (createTextSnapshot example_ctx False)) ''1_7'' = Inl NO_SUCH_ELEMENT \<and>
   getElementByUid (snd (createTextSnapshot example_ctx False)) ''1_2'' = Inl NO_SUCH_ELEMENT \<and>
   getElementByUid
     (snd (createTextSnapshot (snd (createTextSnapshot example_ctx False)) False)) ''1_0'' =
     Inl STALE_SNAPSHOT \<and>
   getElementByUid
     (snd (createTextSnapshot (snd (createTextSnapshot example_ctx False)) False)) ''2_0'' =
     Inr 10"
proof -
  let ?c1 = "snd (createTextSnapshot example_ctx False)"
  let ?c2 = "snd (createTextSnapshot ?c1 False)"
  let ?snap = "\<lparr>root = fst (assignIds 1 example_tree (0, [])),
             idToNode = snd (snd (assignIds 1 example_tree (0, []))),
             snapshotId = ''1''\<rparr>"
  have s1: "String_nat 1 = ''1''" by (rule String_nat_small)
  have s2: "String_nat 2 = ''2''" by (rule String_nat_small)
  have c1: "?c1 = example_ctx\<lparr>nextSnapshotId := 2, textSnapshot := Some ?snap\<rparr>"
    by (simp add: example_first_snapshot)
  have c2: "?c2 = example_ctx\<lparr>nextSnapshotId := 3,
          textSnapshot := Some
            \<lparr>root = fst (assignIds 2 example_tree (0, [])),
             idToNode = snd (snd (assignIds 2 example_tree (0, []))),
             snapshotId = ''2''\<rparr>\<rparr>"
    unfolding c1 by (simp add: example_second_snapshot)
  have t0: "textSnapshot example_ctx = None" by (simp add: example_ctx_def)
  have t1: "textSnapshot ?c1 = Some ?snap" unfolding c1 by simp
  have ne: "idToNode ?snap \<noteq> []" by (simp add: example_assignIds)
  have p0: "split_first ''0_0'' \<noteq> snapshotId ?snap" by (simp add: split_first_def)
  have absent: "map_of (idToNode ?snap) ''1_7'' = None" by (simp add: example_assignIds String_nat_small)
  have present: "map_of (idToNode ?snap) ''1_2'' =
      Some (TextSnapshotNode ''1_2'' ''option'' (Some ''Large'') (Some (StringValue ''Large'')) 12 [])"
    by (simp add: example_assignIds String_nat_small)
  have detached: "elementHandle ?c1 (node_element
      (TextSnapshotNode ''1_2'' ''option'' (Some ''Large'') (Some (StringValue ''Large'')) 12 [])) = None"
    unfolding c1 by (simp add: example_ctx_def)
  have h1: "createTextSnapshot example_ctx False = (Inr (), ?c1)"
    by (simp add: example_first_snapshot)
  have h2: "nextSnapshotId ?c1 \<noteq> nextSnapshotId example_ctx"
    unfolding c1 by (simp add: example_ctx_def)
  have h3: "''1_0'' \<in> set (issued_uids ?c1)"
    unfolding c1 by (simp add: issued_uids_def example_assignIds String_nat_small)
  have h4: "nextSnapshotId ?c1 \<le> nextSnapshotId ?c1" by simp
  have h5: "createTextSnapshot ?c1 False = (Inr (), ?c2)"
    unfolding c1 by (simp add: example_second_snapshot)
  have h6: "nextSnapshotId ?c2 \<noteq> nextSnapshotId ?c1"
    unfolding c2 unfolding c1 by simp
  from getElementByUid_fails [where ctx = example_ctx and uid = "''1_0''"] t0
  have r0: "getElementByUid example_ctx ''1_0'' = Inl NO_SNAPSHOT" by blast
  from getElementByUid_fails [where ctx = ?c1 and snap = ?snap and uid = "''0_0''"] t1 ne p0
  have r1: "getElementByUid ?c1 ''0_0'' = Inl STALE_SNAPSHOT" by blast
  from getElementByUid_fails [where ctx = ?c1 and snap = ?snap and uid = "''1_7''"] t1 absent
  have r2: "getElementByUid ?c1 ''1_7'' \<in> {Inl NO_SNAPSHOT, Inl STALE_SNAPSHOT, Inl NO_SUCH_ELEMENT}"
    by blast
  from getElementByUid_fails [where ctx = ?c1 and snap = ?snap and uid = "''1_2''" and
      node = "TextSnapshotNode ''1_2'' ''option'' (Some ''Large'') (Some (StringValue ''Large'')) 12 []"]
    t1 present detached
  have r3: "getElementByUid ?c1 ''1_2'' \<in> {Inl NO_SNAPSHOT, Inl STALE_SNAPSHOT, Inl NO_SUCH_ELEMENT}"
    by blast
  from getElementByUid_fails [where ctxa = example_ctx and va = False and ctxb = ?c1 and
      issued = "''1_0''" and ctxc = ?c1 and vb = False and ctxd = ?c2]
    h1 h2 h3 h4 h5 h6
  have r4: "getElementByUid ?c2 ''1_0'' = Inl STALE_SNAPSHOT" by blast
  have e1: "getElementByUid ?c1 ''1_0'' = Inr 10"
    unfolding c1 by (simp add: getElementByUid_def example_assignIds String_nat_small split_first_def example_ctx_def)
  have e2: "getElementByUid ?c1 ''1_7'' = Inl NO_SUCH_ELEMENT"
    unfolding c1 by (simp add: getElementByUid_def example_assignIds String_nat_small split_first_def)
  have e3: "getElementByUid ?c1 ''1_2'' = Inl NO_SUCH_ELEMENT"
    unfolding c1 by (simp add: getElementByUid_def example_assignIds String_nat_small split_first_def example_ctx_def)
  have e4: "getElementByUid ?c2 ''2_0'' = Inr 10"
    unfolding c2 by (simp add: getElementByUid_def example_assignIds String_nat_small split_first_def example_ctx_def)
  from r0 r1 r4 e1 e2 e3 e4 show ?thesis by blast
qed

section \<open>The value of an option\<close>

lemma assignIds_values:
  "map node_value (snapshot_nodes (fst (assignIds sid node st))) = map option_value (raw_nodes node) \<and>
   map node_role (snapshot_nodes (fst (assignIds sid node st))) = map ax_role (raw_nodes node) \<and>
   map node_name (snapshot_nodes (fst (assignIds sid node st))) = map ax_name (raw_nodes node)"
  "map node_value (concat (map snapshot_nodes (fst (assignIds_children sid nodes st)))) =
     map option_value (concat (map raw_nodes nodes)) \<and>
   map node_role (concat (map snapshot_nodes (fst (assignIds_children sid nodes st)))) =
     map ax_role (concat (map raw_nodes nodes)) \<and>
   map node_name (concat (map snapshot_nodes (fst (assignIds_children sid nodes st)))) =
     map ax_name (concat (map raw_nodes nodes))"
proof (induction sid node st and sid nodes st rule: assignIds_assignIds_children.induct)
  case (1 sid nrole nname nvalue nelement nchildren idCounter idMap)
  then show ?case
    by (auto simp: Let_def option_value_def truthy_string_def split: prod.splits option.splits)
next
  case (2 sid st)
  then show ?case by simp
next
  case (3 sid child rest st)
  then show ?case by (auto split: prod.splits)
qed

text \<open>
  Claim C4, as the code has it. Every node of the snapshot, in preorder, has the value
  \<open>option_value\<close> of the raw node it was made from: an option whose name is not empty gets
  its name as value, whether or not it had a value; a node that is not an option, or
  whose name is absent or empty, keeps its value.
\<close>

theorem option_value_is_name:
  "map node_value (snapshot_nodes (fst (assignIds sid raw st))) = map option_value (raw_nodes raw) \<and>
   (getSelectedPage ctx = Inr page \<and> accessibility_snapshot ctx page (\<not> verbose) = Some rootNode \<longrightarrow>
      (\<exists>snap. textSnapshot (snd (createTextSnapshot ctx verbose)) = Some snap \<and>
         map node_value (snapshot_nodes (root snap)) = map option_value (raw_nodes rootNode))) \<and>
   (ax_role raw = ''option'' \<and> ax_name raw = Some optionText \<and> optionText \<noteq> [] \<longrightarrow>
      option_value raw = Some (StringValue optionText)) \<and>
   (ax_role raw \<noteq> ''option'' \<or> ax_name raw = None \<or> ax_name raw = Some [] \<longrightarrow>
      option_value raw = ax_value raw)"
proof (intro conjI impI)
  show "map node_value (snapshot_nodes (fst (assignIds sid raw st))) = map option_value (raw_nodes raw)"
    using assignIds_values(1) by blast
next
  assume h: "getSelectedPage ctx = Inr page \<and> accessibility_snapshot ctx page (\<not> verbose) = Some rootNode"
  then have "textSnapshot (snd (createTextSnapshot ctx verbose)) =
      Some \<lparr>root = fst (assignIds (nextSnapshotId ctx) rootNode (0, [])),
            idToNode = snd (snd (assignIds (nextSnapshotId ctx) rootNode (0, []))),
            snapshotId = String_nat (nextSnapshotId ctx)\<rparr>"
    by (simp add: createTextSnapshot_def Let_def split: prod.splits)
  then show "\<exists>snap. textSnapshot (snd (createTextSnapshot ctx verbose)) = Some snap \<and>
         map node_value (snapshot_nodes (root snap)) = map option_value (raw_nodes rootNode)"
    using assignIds_values(1) [of "nextSnapshotId ctx" rootNode "(0, [])"] by simp
next
  assume "ax_role raw = ''option'' \<and> ax_name raw = Some optionText \<and> optionText \<noteq> []"
  then show "option_value raw = Some (StringValue optionText)"
    by (simp add: option_value_def truthy_string_def)
next
  assume "ax_role raw \<noteq> ''option'' \<or> ax_name raw = None \<or> ax_name raw = Some []"
  then show "option_value raw = ax_value raw"
    by (auto simp: option_value_def truthy_string_def)
qed

text \<open>
  The claim as stated fails: an option that has the value \<open>L\<close> and the name \<open>Large\<close> does
  not keep its value.
\<close>

theorem option_value_overwritten:
  "ax_role (SerializedAXNode ''option'' (Some ''Large'') (Some (StringValue ''L'')) 12 []) = ''option'' \<and>
   ax_value (SerializedAXNode ''option'' (Some ''Large'') (Some (StringValue ''L'')) 12 []) =
     Some (StringValue ''L'') \<and>
   node_value (fst (assignIds 1
     (SerializedAXNode ''option'' (Some ''Large'') (Some (StringValue ''L'')) 12 []) (0, []))) =
     Some (StringValue ''Large'') \<and>
   node_value (fst (assignIds 1
     (SerializedAXNode ''option'' (Some ''Large'') (Some (StringValue ''L'')) 12 []) (0, []))) \<noteq>
   ax_value (SerializedAXNode ''option'' (Some ''Large'') (Some (StringValue ''L'')) 12 [])"
  by (simp add: Let_def)

text \<open>The theorem at the example tree and at three single nodes.\<close>

theorem option_value_is_name_witness:
  "map node_value (snapshot_nodes (fst (assignIds 1 example_tree (0, [])))) =
     [None, Some (StringValue ''Small''), Some (StringValue ''Large'')] \<and>
   (\<exists>snap. textSnapshot (snd (createTextSnapshot example_ctx False)) = Some snap \<and>
      map node_value (snapshot_nodes (root snap)) =
        [None, Some (StringValue ''Small''), Some (StringValue ''Large'')]) \<and>
   option_value (SerializedAXNode ''option'' (Some ''Large'') (Some (StringValue ''L'')) 12 []) =
     Some (StringValue ''Large'') \<and>
   option_value (SerializedAXNode ''listbox'' (Some ''Size'') None 10 []) = None \<and>
   option_value (SerializedAXNode ''option'' None (Some (NumberValue 3)) 13 []) =
     Some (NumberValue 3)"
proof -
  have v: "map option_value (raw_nodes example_tree) =
      [None, Some (StringValue ''Small''), Some (StringValue ''Large'')]"
    by (simp add: example_tree_def option_value_def truthy_string_def)
  have p: "getSelectedPage example_ctx = Inr 0 \<and>
      accessibility_snapshot example_ctx 0 (\<not> False) = Some example_tree"
    by (simp add: getSelectedPage_def at_index_def example_ctx_def example_page_def)
  note T = option_value_is_name [where sid = 1 and raw = example_tree and st = "(0, [])" and
      ctx = example_ctx and page = 0 and verbose = False and rootNode = example_tree]
  from T v have a: "map node_value (snapshot_nodes (fst (assignIds 1 example_tree (0, [])))) =
     [None, Some (StringValue ''Small''), Some (StringValue ''Large'')]" by simp
  from T p v have b: "\<exists>snap. textSnapshot (snd (createTextSnapshot example_ctx False)) = Some snap \<and>
      map node_value (snapshot_nodes (root snap)) =
        [None, Some (StringValue ''Small''), Some (StringValue ''Large'')]" by simp
  from option_value_is_name [where raw = "SerializedAXNode ''option'' (Some ''Large'')
        (Some (StringValue ''L'')) 12 []" and optionText = "''Large''"]
  have c: "option_value (SerializedAXNode ''option'' (Some ''Large'') (Some (StringValue ''L'')) 12 []) =
     Some (StringValue ''Large'')" by simp
  from option_value_is_name [where raw = "SerializedAXNode ''listbox'' (Some ''Size'') None 10 []"]
  have d: "option_value (SerializedAXNode ''listbox'' (Some ''Size'') None 10 []) = None" by simp
  from option_value_is_name [where raw = "SerializedAXNode ''option'' None (Some (NumberValue 3)) 13 []"]
  have e: "option_value (SerializedAXNode ''option'' None (Some (NumberValue 3)) 13 []) =
     Some (NumberValue 3)" by simp
  from a b c d e show ?thesis by blast
qed

section \<open>Pagination of a list section\<close>

lemma paginate_no_pageSize:
  assumes "pagination = None \<or> (\<exists>opts. pagination = Some opts \<and> pageSize opts = None)"
  shows "items (paginate xs pagination) = xs" and "totalPages (paginate xs pagination) = 1"
    and "snd (dataWithPagination xs pagination) = xs"
  using assms by (auto simp: paginate_def dataWithPagination_def Let_def)

lemma paginate_invalid:
  assumes "pagination = Some opts" and "pageSize opts = Some ps" and "pageIdx opts = Some i"
    and "i < 0 \<or> int (totalPages (paginate xs pagination)) \<le> i"
  shows "invalidPage (paginate xs pagination)" and "currentPage (paginate xs pagination) = 0"
    and "items (paginate xs pagination) = take ps xs"
    and "totalPages (paginate xs pagination) = max 1 ((length xs + ps - 1) div ps)"
  using assms by (auto simp: paginate_def Let_def)

lemma dataWithPagination_invalid:
  assumes "invalidPage (paginate xs pagination)"
  shows "hd (fst (dataWithPagination xs pagination)) = INVALID_PAGE"
    and "INVALID_PAGE \<in> set (fst (dataWithPagination xs pagination))"
  using assms by (auto simp: dataWithPagination_def Let_def split: option.splits)

lemma dataWithPagination_items: "snd (dataWithPagination xs pagination) = items (paginate xs pagination)"
  by (simp add: dataWithPagination_def Let_def)

text \<open>
  Claim C2. Without a \<open>pageSize\<close> (no pagination options, or options without one) the
  page holds all the items and there is one page. With a \<open>pageSize\<close> above 0 and a
  \<open>pageIdx\<close> below 0 or not below the page count, pagination falls back to page 0: the
  result is flagged invalid, holds the first \<open>pageSize\<close> items, and the list section
  opens with the line that says so; \<open>paginate\<close> and \<open>dataWithPagination\<close> are total, so
  neither raises an error. For three items, \<open>pageSize = 2\<close> and \<open>pageIdx = 5\<close>: the first
  two items, two pages, the invalid-page line.
\<close>

theorem pagination_fallback:
  "(pagination = None \<or> (\<exists>opts. pagination = Some opts \<and> pageSize opts = None) \<longrightarrow>
      items (paginate xs pagination) = xs \<and> totalPages (paginate xs pagination) = 1 \<and>
      snd (dataWithPagination xs pagination) = xs) \<and>
   (pagination = Some opts \<and> pageSize opts = Some ps \<and> 0 < ps \<and> pageIdx opts = Some i \<and>
    (i < 0 \<or> int (totalPages (paginate xs pagination)) \<le> i) \<longrightarrow>
      invalidPage (paginate xs pagination) \<and> currentPage (paginate xs pagination) = 0 \<and>
      items (paginate xs pagination) = take ps xs \<and>
      snd (dataWithPagination xs pagination) = take ps xs \<and>
      hd (fst (dataWithPagination xs pagination)) =
        ''Invalid page number provided. Showing first page.'') \<and>
   paginate [a, b, c] (Some \<lparr>pageSize = Some 2, pageIdx = Some 5\<rparr>) =
     \<lparr>items = [a, b], currentPage = 0, totalPages = 2, hasNextPage = True,
      hasPreviousPage = False, startIndex = 0, endIndex = 2, invalidPage = True\<rparr> \<and>
   dataWithPagination [a, b, c] (Some \<lparr>pageSize = Some 2, pageIdx = Some 5\<rparr>) =
     ([''Invalid page number provided. Showing first page.'',
       ''Showing 1-2 of 3 (Page 1 of 2).'', ''Next page: 1''], [a, b])"
proof (intro conjI impI)
  assume h: "pagination = None \<or> (\<exists>opts. pagination = Some opts \<and> pageSize opts = None)"
  show "items (paginate xs pagination) = xs" by (rule paginate_no_pageSize(1) [OF h])
  show "totalPages (paginate xs pagination) = 1" by (rule paginate_no_pageSize(2) [OF h])
  show "snd (dataWithPagination xs pagination) = xs" by (rule paginate_no_pageSize(3) [OF h])
next
  assume h: "pagination = Some opts \<and> pageSize opts = Some ps \<and> 0 < ps \<and> pageIdx opts = Some i \<and>
    (i < 0 \<or> int (totalPages (paginate xs pagination)) \<le> i)"
  then have p: "pagination = Some opts" and s: "pageSize opts = Some ps" and i: "pageIdx opts = Some i"
    and o: "i < 0 \<or> int (totalPages (paginate xs pagination)) \<le> i" by blast+
  show inv: "invalidPage (paginate xs pagination)" by (rule paginate_invalid(1) [OF p s i o])
  show "currentPage (paginate xs pagination) = 0" by (rule paginate_invalid(2) [OF p s i o])
  show t: "items (paginate xs pagination) = take ps xs" by (rule paginate_invalid(3) [OF p s i o])
  show "snd (dataWithPagination xs pagination) = take ps xs"
    using t by (simp add: dataWithPagination_items)
  show "hd (fst (dataWithPagination xs pagination)) =
        ''Invalid page number provided. Showing first page.''"
    using dataWithPagination_invalid(1) [OF inv] by (simp add: INVALID_PAGE_def)
next
  show p: "paginate [a, b, c] (Some \<lparr>pageSize = Some 2, pageIdx = Some 5\<rparr>) =
     \<lparr>items = [a, b], currentPage = 0, totalPages = 2, hasNextPage = True,
      hasPreviousPage = False, startIndex = 0, endIndex = 2, invalidPage = True\<rparr>"
    by (simp add: paginate_def Let_def)
  show "dataWithPagination [a, b, c] (Some \<lparr>pageSize = Some 2, pageIdx = Some 5\<rparr>) =
     ([''Invalid page number provided. Showing first page.'',
       ''Showing 1-2 of 3 (Page 1 of 2).'', ''Next page: 1''], [a, b])"
    unfolding dataWithPagination_def p
    by (simp add: INVALID_PAGE_def String_nat_small Let_def)
qed

text \<open>
  The theorem at a list of three strings: no options, options without a page size, page
  5 and page -1 of two (both invalid), and page 1 of two, which is valid.
\<close>

theorem pagination_fallback_witness:
  "items (paginate [''a'', ''b'', ''c''] None) = [''a'', ''b'', ''c''] \<and>
   totalPages (paginate [''a'', ''b'', ''c''] None) = 1 \<and>
   items (paginate [''a'', ''b'', ''c''] (Some \<lparr>pageSize = None, pageIdx = Some 1\<rparr>)) =
     [''a'', ''b'', ''c''] \<and>
   totalPages (paginate [''a'', ''b'', ''c''] (Some \<lparr>pageSize = None, pageIdx = Some 1\<rparr>)) = 1 \<and>
   invalidPage (paginate [''a'', ''b'', ''c''] (Some \<lparr>pageSize = Some 2, pageIdx = Some 5\<rparr>)) \<and>
   items (paginate [''a'', ''b'', ''c''] (Some \<lparr>pageSize = Some 2, pageIdx = Some 5\<rparr>)) =
     [''a'', ''b''] \<and>
   invalidPage (paginate [''a'', ''b'', ''c''] (Some \<lparr>pageSize = Some 2, pageIdx = Some (- 1)\<rparr>)) \<and>
   hd (fst (dataWithPagination [''a'', ''b'', ''c''] (Some \<lparr>pageSize = Some 2, pageIdx = Some (- 1)\<rparr>))) =
     ''Invalid page number provided. Showing first page.'' \<and>
   \<not> invalidPage (paginate [''a'', ''b'', ''c''] (Some \<lparr>pageSize = Some 2, pageIdx = Some 1\<rparr>)) \<and>
   items (paginate [''a'', ''b'', ''c''] (Some \<lparr>pageSize = Some 2, pageIdx = Some 1\<rparr>)) = [''c'']"
proof -
  let ?xs = "[''a'', ''b'', ''c'']"
  let ?o1 = "\<lparr>pageSize = None, pageIdx = Some 1\<rparr>"
  let ?o5 = "\<lparr>pageSize = Some 2, pageIdx = Some 5\<rparr>"
  let ?om = "\<lparr>pageSize = Some 2, pageIdx = Some (- 1)\<rparr>"
  have h1: "Some ?o1 = None \<or> (\<exists>opts. Some ?o1 = Some opts \<and> pageSize opts = None)" by simp
  have t5: "totalPages (paginate ?xs (Some ?o5)) = 2" by (simp add: paginate_def Let_def)
  have h5: "Some ?o5 = Some ?o5 \<and> pageSize ?o5 = Some 2 \<and> (0::nat) < 2 \<and> pageIdx ?o5 = Some 5 \<and>
      ((5::int) < 0 \<or> int (totalPages (paginate ?xs (Some ?o5))) \<le> 5)"
    unfolding t5 by simp
  have hm: "Some ?om = Some ?om \<and> pageSize ?om = Some 2 \<and> (0::nat) < 2 \<and> pageIdx ?om = Some (- 1) \<and>
      ((- 1::int) < 0 \<or> int (totalPages (paginate ?xs (Some ?om))) \<le> - 1)"
    by simp
  have h0: "(None :: PaginationOptions option) = None \<or>
      (\<exists>opts. (None :: PaginationOptions option) = Some opts \<and> pageSize opts = None)" by simp
  note a = pagination_fallback [where pagination = None and xs = ?xs,
      THEN conjunct1, THEN mp, OF h0]
  note b = pagination_fallback [where pagination = "Some ?o1" and xs = ?xs,
      THEN conjunct1, THEN mp, OF h1]
  note c = pagination_fallback [where pagination = "Some ?o5" and xs = ?xs and opts = ?o5 and
      ps = 2 and i = 5, THEN conjunct2, THEN conjunct1, THEN mp, OF h5]
  note d = pagination_fallback [where pagination = "Some ?om" and xs = ?xs and opts = ?om and
      ps = 2 and i = "- 1", THEN conjunct2, THEN conjunct1, THEN mp, OF hm]
  have e1: "\<not> invalidPage (paginate ?xs (Some \<lparr>pageSize = Some 2, pageIdx = Some 1\<rparr>))"
    by (simp add: paginate_def Let_def)
  have e2: "items (paginate ?xs (Some \<lparr>pageSize = Some 2, pageIdx = Some 1\<rparr>)) = [''c'']"
    by (simp add: paginate_def Let_def)
  have f: "take 2 ?xs = [''a'', ''b'']" by simp
  show ?thesis
  proof (intro conjI)
    show "items (paginate ?xs None) = ?xs" by (rule a [THEN conjunct1])
    show "totalPages (paginate ?xs None) = 1" by (rule a [THEN conjunct2, THEN conjunct1])
    show "items (paginate ?xs (Some ?o1)) = ?xs" by (rule b [THEN conjunct1])
    show "totalPages (paginate ?xs (Some ?o1)) = 1" by (rule b [THEN conjunct2, THEN conjunct1])
    show "invalidPage (paginate ?xs (Some ?o5))" by (rule c [THEN conjunct1])
    show "items (paginate ?xs (Some ?o5)) = [''a'', ''b'']"
      using c [THEN conjunct2, THEN conjunct2, THEN conjunct1] unfolding f .
    show "invalidPage (paginate ?xs (Some ?om))" by (rule d [THEN conjunct1])
    show "hd (fst (dataWithPagination ?xs (Some ?om))) =
        ''Invalid page number provided. Showing first page.''"
      by (rule d [THEN conjunct2, THEN conjunct2, THEN conjunct2, THEN conjunct2])
    show "\<not> invalidPage (paginate ?xs (Some \<lparr>pageSize = Some 2, pageIdx = Some 1\<rparr>))" by (rule e1)
    show "items (paginate ?xs (Some \<lparr>pageSize = Some 2, pageIdx = Some 1\<rparr>)) = [''c'']" by (rule e2)
  qed
qed

text \<open>The same scenario through the list of network requests of the example session.\<close>

lemma example_list_section:
  "format_networkRequests example_formatters
     (setIncludeNetworkRequests new_McpResponse True
        (Some \<lparr>pageSize = Some 2, pageIdx = Some 5, resourceTypes = None,
               includePreservedRequests = None, networkRequestIdInDevToolsUI = None\<rparr>))
     example_ctx =
   Inr [''## Network requests'', ''Invalid page number provided. Showing first page.'',
        ''Showing 1-2 of 3 (Page 1 of 2).'', ''Next page: 1'',
        ''https://example.com/'', ''https://example.com/a.png'']"
proof -
  have d: "dataWithPagination example_requests (Some \<lparr>pageSize = Some 2, pageIdx = Some 5\<rparr>) =
     ([''Invalid page number provided. Showing first page.'',
       ''Showing 1-2 of 3 (Page 1 of 2).'', ''Next page: 1''],
      [HTTPRequest ''https://example.com/'' ''document'' [] None None [],
       HTTPRequest ''https://example.com/a.png'' ''image'' [] None None []])"
    unfolding example_requests_def by (simp add: dataWithPagination_def paginate_def Let_def INVALID_PAGE_def String_nat_small)
  have g: "getNetworkRequests example_ctx None = Inr example_requests"
    by (simp add: getNetworkRequests_def getSelectedPage_def at_index_def example_ctx_def
        example_page_def example_collector_def)
  have ne: "example_requests \<noteq> []" by (simp add: example_requests_def)
  have sid: "\<And>r. getNetworkRequestStableId example_ctx r = Inr (index_of example_requests r)"
    by (simp add: getNetworkRequestStableId_def example_ctx_def example_collector_def)
  show ?thesis
    by (simp add: format_networkRequests_def setIncludeNetworkRequests_def new_McpResponse_def
        pagination_given_def truthy_number_def g ne d sid example_formatters_def Let_def)
qed

section \<open>Filters come before pagination\<close>

lemma map_result_length: "map_result f xs = Inr ys \<Longrightarrow> length ys = length xs"
  by (induction xs arbitrary: ys) (auto split: sum.splits)

lemma showing_line_in: "showing_line xs pagination \<in> set (fst (dataWithPagination xs pagination))"
  by (simp add: dataWithPagination_def showing_line_def Let_def split: option.splits)

lemma getSelectedPage_collector [simp]:
  "getSelectedPage (ctx\<lparr>networkCollector := c\<rparr>) = getSelectedPage ctx"
  "getSelectedPage (ctx\<lparr>consoleCollector := d\<rparr>) = getSelectedPage ctx"
  by (simp_all add: getSelectedPage_def split: option.splits)

lemma network_filter_first:
  assumes "networkRequestsOptions response = Some opts"
    and "nro_resourceTypes opts = Some ts" and "ts \<noteq> []"
  shows "format_networkRequests fmt response ctx =
     format_networkRequests fmt
       (response\<lparr>networkRequestsOptions := Some (opts\<lparr>nro_resourceTypes := None\<rparr>)\<rparr>)
       (ctx\<lparr>networkCollector := prefiltered (matches_resourceTypes ts) (networkCollector ctx)\<rparr>)"
  using assms
  by (cases "getSelectedPage ctx")
    (simp_all add: format_networkRequests_def getNetworkRequests_def getNetworkRequestStableId_def
      prefiltered_def Let_def cong: sum.case_cong prod.case_cong option.case_cong if_cong)

lemma network_counts_filtered:
  assumes "networkRequestsOptions response = Some opts \<and> nro_include opts"
    and "nro_resourceTypes opts = Some ts" and "ts \<noteq> []"
    and "getNetworkRequests ctx (nro_includePreservedRequests opts) = Inr raw_requests"
    and "filter (matches_resourceTypes ts) raw_requests \<noteq> []"
    and "format_networkRequests fmt response ctx = Inr section_lines"
  shows "showing_line (filter (matches_resourceTypes ts) raw_requests) (nro_pagination opts)
           \<in> set section_lines"
proof -
  let ?f = "filter (matches_resourceTypes ts) raw_requests"
  obtain info shown where d: "dataWithPagination ?f (nro_pagination opts) = (info, shown)"
    by (cases "dataWithPagination ?f (nro_pagination opts)") auto
  from showing_line_in [of ?f "nro_pagination opts"] d
  have i: "showing_line ?f (nro_pagination opts) \<in> set info" by simp
  from assms(1-5) d have "format_networkRequests fmt response ctx =
      (if nro_include opts
       then (case map_result
                (\<lambda>request.
                    case getNetworkRequestStableId ctx request of
                      Inl e \<Rightarrow> Inl e
                    | Inr stableId \<Rightarrow>
                        Inr (getShortDescriptionForRequest fmt request stableId
                              (Some (Some stableId = nro_networkRequestIdInDevToolsUI opts))))
                shown of
                Inl e \<Rightarrow> Inl e
              | Inr request_lines \<Rightarrow> Inr (''## Network requests'' # info @ request_lines))
       else Inr [])"
    by (simp add: format_networkRequests_def)
  with assms(6) obtain request_lines where
    "section_lines = ''## Network requests'' # info @ request_lines"
    using assms(1) by (auto split: if_splits sum.splits)
  with i show ?thesis by simp
qed

lemma console_filter_first:
  assumes "consoleDataOptions response = Some opts"
    and "cdo_types opts = Some ts" and "ts \<noteq> []"
  shows "gatherConsoleListData response ctx =
     gatherConsoleListData
       (response\<lparr>consoleDataOptions := Some (opts\<lparr>cdo_types := None\<rparr>)\<rparr>)
       (ctx\<lparr>consoleCollector := prefiltered (matches_types ts) (consoleCollector ctx)\<rparr>)"
  using assms
  by (cases "getSelectedPage ctx")
    (simp_all add: gatherConsoleListData_def getConsoleData_def getConsoleMessageStableId_def
      prefiltered_def Let_def cong: sum.case_cong prod.case_cong option.case_cong if_cong)

lemma console_counts_filtered:
  assumes "consoleDataOptions response = Some opts" and "cdo_include opts"
    and "cdo_types opts = Some ts" and "ts \<noteq> []"
    and "getConsoleData ctx (cdo_includePreservedMessages opts) = Inr raw_messages"
    and "filter (matches_types ts) raw_messages \<noteq> []"
    and "gatherConsoleListData response ctx = Inr listData"
  shows "\<exists>shown. listData = Some shown \<and>
           length shown = length (filter (matches_types ts) raw_messages) \<and>
           showing_line shown (cdo_pagination opts)
             \<in> set (format_consoleMessages fmt response listData)"
proof -
  from assms obtain shown where l: "listData = Some shown"
    and m: "map_result
              (\<lambda>item. case getConsoleMessageStableId ctx item of
                   Inl e \<Rightarrow> Inl e
                 | Inr stableId \<Rightarrow> Inr (consoleMessageData stableId item))
              (filter (matches_types ts) raw_messages) = Inr shown"
    by (auto simp: gatherConsoleListData_def Let_def split: sum.splits)
  from map_result_length [OF m] have n: "length shown = length (filter (matches_types ts) raw_messages)" .
  with assms(6) have ne: "shown \<noteq> []" by auto
  obtain info ms where d: "dataWithPagination shown (cdo_pagination opts) = (info, ms)"
    by (cases "dataWithPagination shown (cdo_pagination opts)") auto
  from showing_line_in [of shown "cdo_pagination opts"] d
  have i: "showing_line shown (cdo_pagination opts) \<in> set info" by simp
  from assms(1,2) ne d i have "showing_line shown (cdo_pagination opts)
      \<in> set (format_consoleMessages fmt response (Some shown))"
    by (simp add: format_consoleMessages_def Let_def)
  with l n show ?thesis by simp
qed

text \<open>
  Claim C5. With a resource-type filter, the section of network requests is the section
  of the already filtered requests rendered without a filter, and its pagination line
  (shown range, total count, page count) is the one of the filtered list. With a
  message-type filter, the console messages gathered are those of the already filtered
  messages gathered without a filter; there are as many as passed the filter, and the
  pagination line of the console section is the one of that list.
\<close>

theorem filters_before_pagination:
  "(networkRequestsOptions response = Some nopts \<and> nro_resourceTypes nopts = Some rts \<and> rts \<noteq> [] \<longrightarrow>
      format_networkRequests fmt response ctx =
        format_networkRequests fmt
          (response\<lparr>networkRequestsOptions := Some (nopts\<lparr>nro_resourceTypes := None\<rparr>)\<rparr>)
          (ctx\<lparr>networkCollector := prefiltered (matches_resourceTypes rts) (networkCollector ctx)\<rparr>)) \<and>
   (networkRequestsOptions response = Some nopts \<and> nro_include nopts \<and>
    nro_resourceTypes nopts = Some rts \<and> rts \<noteq> [] \<and>
    getNetworkRequests ctx (nro_includePreservedRequests nopts) = Inr raw_requests \<and>
    filter (matches_resourceTypes rts) raw_requests \<noteq> [] \<and>
    format_networkRequests fmt response ctx = Inr section_lines \<longrightarrow>
      showing_line (filter (matches_resourceTypes rts) raw_requests) (nro_pagination nopts)
        \<in> set section_lines) \<and>
   (consoleDataOptions response = Some copts \<and> cdo_types copts = Some cts \<and> cts \<noteq> [] \<longrightarrow>
      gatherConsoleListData response ctx =
        gatherConsoleListData
          (response\<lparr>consoleDataOptions := Some (copts\<lparr>cdo_types := None\<rparr>)\<rparr>)
          (ctx\<lparr>consoleCollector := prefiltered (matches_types cts) (consoleCollector ctx)\<rparr>)) \<and>
   (consoleDataOptions response = Some copts \<and> cdo_include copts \<and>
    cdo_types copts = Some cts \<and> cts \<noteq> [] \<and>
    getConsoleData ctx (cdo_includePreservedMessages copts) = Inr raw_messages \<and>
    filter (matches_types cts) raw_messages \<noteq> [] \<and>
    gatherConsoleListData response ctx = Inr listData \<longrightarrow>
      (\<exists>shown. listData = Some shown \<and>
         length shown = length (filter (matches_types cts) raw_messages) \<and>
         showing_line shown (cdo_pagination copts)
           \<in> set (format_consoleMessages fmt response listData)))"
proof (intro conjI impI)
  assume "networkRequestsOptions response = Some nopts \<and> nro_resourceTypes nopts = Some rts \<and> rts \<noteq> []"
  then show "format_networkRequests fmt response ctx =
        format_networkRequests fmt
          (response\<lparr>networkRequestsOptions := Some (nopts\<lparr>nro_resourceTypes := None\<rparr>)\<rparr>)
          (ctx\<lparr>networkCollector := prefiltered (matches_resourceTypes rts) (networkCollector ctx)\<rparr>)"
    by (intro network_filter_first) (erule conjE | assumption)+
next
  assume h: "networkRequestsOptions response = Some nopts \<and> nro_include nopts \<and>
    nro_resourceTypes nopts = Some rts \<and> rts \<noteq> [] \<and>
    getNetworkRequests ctx (nro_includePreservedRequests nopts) = Inr raw_requests \<and>
    filter (matches_resourceTypes rts) raw_requests \<noteq> [] \<and>
    format_networkRequests fmt response ctx = Inr section_lines"
  then have a: "networkRequestsOptions response = Some nopts \<and> nro_include nopts"
    and b: "nro_resourceTypes nopts = Some rts" and c: "rts \<noteq> []"
    and d: "getNetworkRequests ctx (nro_includePreservedRequests nopts) = Inr raw_requests"
    and e: "filter (matches_resourceTypes rts) raw_requests \<noteq> []"
    and f: "format_networkRequests fmt response ctx = Inr section_lines"
    by blast+
  show "showing_line (filter (matches_resourceTypes rts) raw_requests) (nro_pagination nopts)
        \<in> set section_lines"
    by (rule network_counts_filtered [OF a b c d e f])
next
  assume "consoleDataOptions response = Some copts \<and> cdo_types copts = Some cts \<and> cts \<noteq> []"
  then show "gatherConsoleListData response ctx =
        gatherConsoleListData
          (response\<lparr>consoleDataOptions := Some (copts\<lparr>cdo_types := None\<rparr>)\<rparr>)
          (ctx\<lparr>consoleCollector := prefiltered (matches_types cts) (consoleCollector ctx)\<rparr>)"
    by (intro console_filter_first) (erule conjE | assumption)+
next
  assume h: "consoleDataOptions response = Some copts \<and> cdo_include copts \<and>
    cdo_types copts = Some cts \<and> cts \<noteq> [] \<and>
    getConsoleData ctx (cdo_includePreservedMessages copts) = Inr raw_messages \<and>
    filter (matches_types cts) raw_messages \<noteq> [] \<and>
    gatherConsoleListData response ctx = Inr listData"
  then have a: "consoleDataOptions response = Some copts" and a': "cdo_include copts"
    and b: "cdo_types copts = Some cts" and c: "cts \<noteq> []"
    and d: "getConsoleData ctx (cdo_includePreservedMessages copts) = Inr raw_messages"
    and e: "filter (matches_types cts) raw_messages \<noteq> []"
    and f: "gatherConsoleListData response ctx = Inr listData"
    by blast+
  show "\<exists>shown. listData = Some shown \<and>
         length shown = length (filter (matches_types cts) raw_messages) \<and>
         showing_line shown (cdo_pagination copts)
           \<in> set (format_consoleMessages fmt response listData)"
    by (rule console_counts_filtered [OF a a' b c d e f])
qed

lemma example_network_ids:
  "getNetworkRequestStableId example_ctx r = Inr (index_of example_requests r)"
  by (simp add: getNetworkRequestStableId_def example_ctx_def example_collector_def)

lemma example_console_ids:
  "getConsoleMessageStableId example_ctx m = Inr (index_of example_messages m)"
  by (simp add: getConsoleMessageStableId_def example_ctx_def example_collector_def)

lemma example_network_data: "getNetworkRequests example_ctx incl = Inr example_requests"
  by (simp add: getNetworkRequests_def getSelectedPage_def at_index_def example_ctx_def
      example_page_def example_collector_def)

lemma example_console_data: "getConsoleData example_ctx incl = Inr example_messages"
  by (simp add: getConsoleData_def getSelectedPage_def at_index_def example_ctx_def
      example_page_def example_collector_def)

lemma example_images:
  "filter (matches_resourceTypes [''image'']) example_requests =
     [HTTPRequest ''https://example.com/a.png'' ''image'' [] None None [],
      HTTPRequest ''https://example.com/b.png'' ''image'' [] None None []]"
  by (simp add: example_requests_def matches_resourceTypes_def)

lemma example_warnings:
  "filter (matches_types [''warning'', ''error'']) example_messages =
     [Message (ConsoleMessage ''warning'' ''careful''
         [Inr (JsNumber ''1''), Inl (Error ''Execution context was destroyed'' None), Inr JsNull]),
      PageError (Error ''boom'' None)]"
  by (simp add: example_messages_def matches_types_def)

lemma example_image_page:
  "dataWithPagination
     [HTTPRequest ''https://example.com/a.png'' ''image'' [] None None [],
      HTTPRequest ''https://example.com/b.png'' ''image'' [] None None []]
     (Some \<lparr>pageSize = Some 2, pageIdx = None\<rparr>) =
   ([''Showing 1-2 of 2 (Page 1 of 1).''],
    [HTTPRequest ''https://example.com/a.png'' ''image'' [] None None [],
     HTTPRequest ''https://example.com/b.png'' ''image'' [] None None []])"
  by (simp add: dataWithPagination_def paginate_def Let_def String_nat_small)

lemma example_network_section:
  "format_networkRequests example_formatters
     (new_McpResponse\<lparr>networkRequestsOptions := Some
        \<lparr>nro_include = True, nro_pagination = Some \<lparr>pageSize = Some 2, pageIdx = None\<rparr>,
         nro_resourceTypes = Some [''image''], nro_includePreservedRequests = None,
         nro_networkRequestIdInDevToolsUI = None\<rparr>\<rparr>)
     example_ctx =
   Inr [''## Network requests'', ''Showing 1-2 of 2 (Page 1 of 1).'',
        ''https://example.com/a.png'', ''https://example.com/b.png'']"
  by (simp add: format_networkRequests_def new_McpResponse_def example_network_data
      example_images example_image_page example_network_ids example_formatters_def)

lemma example_console_index:
  "index_of example_messages (Message (ConsoleMessage ''warning'' ''careful''
         [Inr (JsNumber ''1''), Inl (Error ''Execution context was destroyed'' None), Inr JsNull])) = 2"
  "index_of example_messages (PageError (Error ''boom'' None)) = 3"
  by (simp_all add: index_of_def example_messages_def)

lemma example_console_gathered:
  "gatherConsoleListData
     (new_McpResponse\<lparr>consoleDataOptions := Some
        \<lparr>cdo_include = True, cdo_pagination = None,
         cdo_types = Some [''warning'', ''error''], cdo_includePreservedMessages = None\<rparr>\<rparr>)
     example_ctx =
   Inr (Some
     [\<lparr>consoleMessageStableId = 2, data_type = ''warning'', data_message = ''careful'',
       data_args = [''1'', ''undefined'', ''null'']\<rparr>,
      \<lparr>consoleMessageStableId = 3, data_type = ''error'', data_message = ''boom'',
       data_args = []\<rparr>])"
  by (simp add: gatherConsoleListData_def new_McpResponse_def example_console_data
      example_warnings example_console_ids consoleMessageData_def stringifyArg_def
      String_int_def String_nat_small example_console_index)

lemma example_console_section:
  "format_consoleMessages example_formatters
     (new_McpResponse\<lparr>consoleDataOptions := Some
        \<lparr>cdo_include = True, cdo_pagination = None,
         cdo_types = Some [''warning'', ''error''], cdo_includePreservedMessages = None\<rparr>\<rparr>)
     (Some
     [\<lparr>consoleMessageStableId = 2, data_type = ''warning'', data_message = ''careful'',
       data_args = [''1'', ''undefined'', ''null'']\<rparr>,
      \<lparr>consoleMessageStableId = 3, data_type = ''error'', data_message = ''boom'',
       data_args = []\<rparr>]) =
   [''## Console messages'', ''Showing 1-2 of 2 (Page 1 of 1).'', ''careful'', ''boom'']"
  by (simp add: format_consoleMessages_def new_McpResponse_def dataWithPagination_def
      paginate_def Let_def String_nat_small example_formatters_def)

text \<open>
  The theorem at the example session: three requests of which two are images, shown as
  1-2 of 2 on one page (unfiltered, a page size of 2 would give two pages); three
  console messages of which two are a warning or an error.
\<close>

theorem filters_before_pagination_witness:
  "length example_requests = 3 \<and>
   format_networkRequests example_formatters
     (new_McpResponse\<lparr>networkRequestsOptions := Some
        \<lparr>nro_include = True, nro_pagination = Some \<lparr>pageSize = Some 2, pageIdx = None\<rparr>,
         nro_resourceTypes = Some [''image''], nro_includePreservedRequests = None,
         nro_networkRequestIdInDevToolsUI = None\<rparr>\<rparr>)
     example_ctx =
   Inr [''## Network requests'', ''Showing 1-2 of 2 (Page 1 of 1).'',
        ''https://example.com/a.png'', ''https://example.com/b.png''] \<and>
   showing_line (filter (matches_resourceTypes [''image'']) example_requests)
       (Some \<lparr>pageSize = Some 2, pageIdx = None\<rparr>)
     \<in> set [''## Network requests'', ''Showing 1-2 of 2 (Page 1 of 1).'',
            ''https://example.com/a.png'', ''https://example.com/b.png''] \<and>
   showing_line (filter (matches_resourceTypes [''image'']) example_requests)
       (Some \<lparr>pageSize = Some 2, pageIdx = None\<rparr>) = ''Showing 1-2 of 2 (Page 1 of 1).'' \<and>
   length example_messages = 3 \<and>
   (\<exists>shown. gatherConsoleListData
       (new_McpResponse\<lparr>consoleDataOptions := Some
          \<lparr>cdo_include = True, cdo_pagination = None,
           cdo_types = Some [''warning'', ''error''], cdo_includePreservedMessages = None\<rparr>\<rparr>)
       example_ctx = Inr (Some shown) \<and>
      length shown = 2 \<and>
      showing_line shown None = ''Showing 1-2 of 2 (Page 1 of 1).'' \<and>
      showing_line shown None \<in> set (format_consoleMessages example_formatters
        (new_McpResponse\<lparr>consoleDataOptions := Some
          \<lparr>cdo_include = True, cdo_pagination = None,
           cdo_types = Some [''warning'', ''error''], cdo_includePreservedMessages = None\<rparr>\<rparr>)
        (Some shown)))"
proof -
  let ?nopts = "\<lparr>nro_include = True, nro_pagination = Some \<lparr>pageSize = Some 2, pageIdx = None\<rparr>,
         nro_resourceTypes = Some [''image''], nro_includePreservedRequests = None,
         nro_networkRequestIdInDevToolsUI = None\<rparr>"
  let ?rn = "new_McpResponse\<lparr>networkRequestsOptions := Some ?nopts\<rparr>"
  let ?copts = "\<lparr>cdo_include = True, cdo_pagination = None,
           cdo_types = Some [''warning'', ''error''], cdo_includePreservedMessages = None\<rparr>"
  let ?rc = "new_McpResponse\<lparr>consoleDataOptions := Some ?copts\<rparr>"
  let ?lines = "[''## Network requests'', ''Showing 1-2 of 2 (Page 1 of 1).'',
        ''https://example.com/a.png'', ''https://example.com/b.png'']"
  let ?shown = "[\<lparr>consoleMessageStableId = 2, data_type = ''warning'', data_message = ''careful'',
       data_args = [''1'', ''undefined'', ''null'']\<rparr>,
      \<lparr>consoleMessageStableId = 3, data_type = ''error'', data_message = ''boom'',
       data_args = []\<rparr>]"
  have n: "networkRequestsOptions ?rn = Some ?nopts \<and> nro_include ?nopts \<and>
    nro_resourceTypes ?nopts = Some [''image''] \<and> [''image''] \<noteq> [] \<and>
    getNetworkRequests example_ctx (nro_includePreservedRequests ?nopts) = Inr example_requests \<and>
    filter (matches_resourceTypes [''image'']) example_requests \<noteq> [] \<and>
    format_networkRequests example_formatters ?rn example_ctx = Inr ?lines"
    by (simp add: example_network_data example_images example_network_section)
  have c: "consoleDataOptions ?rc = Some ?copts \<and> cdo_include ?copts \<and>
    cdo_types ?copts = Some [''warning'', ''error''] \<and> [''warning'', ''error''] \<noteq> [] \<and>
    getConsoleData example_ctx (cdo_includePreservedMessages ?copts) = Inr example_messages \<and>
    filter (matches_types [''warning'', ''error'']) example_messages \<noteq> [] \<and>
    gatherConsoleListData ?rc example_ctx = Inr (Some ?shown)"
    by (simp add: example_console_data example_warnings example_console_gathered)
  note T = filters_before_pagination [where fmt = example_formatters and ctx = example_ctx]
  note tn = T [where response = ?rn and nopts = ?nopts and rts = "[''image'']" and
      raw_requests = example_requests and section_lines = ?lines,
      THEN conjunct2, THEN conjunct1, THEN mp, OF n]
  note tc = T [where response = ?rc and copts = ?copts and cts = "[''warning'', ''error'']" and
      raw_messages = example_messages and listData = "Some ?shown",
      THEN conjunct2, THEN conjunct2, THEN conjunct2, THEN mp, OF c]
  have s1: "showing_line (filter (matches_resourceTypes [''image'']) example_requests)
       (Some \<lparr>pageSize = Some 2, pageIdx = None\<rparr>) = ''Showing 1-2 of 2 (Page 1 of 1).''"
    by (simp add: example_images showing_line_def paginate_def Let_def String_nat_small)
  have s2: "showing_line ?shown None = ''Showing 1-2 of 2 (Page 1 of 1).''"
    by (simp add: showing_line_def paginate_def Let_def String_nat_small)
  from tc have tc': "showing_line ?shown None \<in> set (format_consoleMessages example_formatters ?rc
      (Some ?shown))" by simp
  have l1: "length example_requests = 3" by (simp add: example_requests_def)
  have l2: "length example_messages = 3" by (simp add: example_messages_def)
  have g: "gatherConsoleListData ?rc example_ctx = Inr (Some ?shown)"
    by (rule example_console_gathered)
  have ex: "\<exists>shown. gatherConsoleListData ?rc example_ctx = Inr (Some shown) \<and>
      length shown = 2 \<and>
      showing_line shown None = ''Showing 1-2 of 2 (Page 1 of 1).'' \<and>
      showing_line shown None \<in> set (format_consoleMessages example_formatters ?rc (Some shown))"
    by (rule exI [of _ ?shown], intro conjI, rule g, simp, rule s2, rule tc')
  from tn have tn': "showing_line (filter (matches_resourceTypes [''image'']) example_requests)
       (Some \<lparr>pageSize = Some 2, pageIdx = None\<rparr>) \<in> set ?lines" by simp
  show ?thesis
    by (intro conjI) (rule l1 example_network_section tn' s1 l2 ex)+
qed

section \<open>An attachment with id 0\<close>





















section \<open>Failures that are swallowed\<close>

lemma handleDialog_swallows:
  assumes "dialog ctx = Some d"
  shows "fst (handleDialog_handler outcome action promptText response ctx logger) = Inr ()"
    and "dialog (fst (snd (snd (handleDialog_handler outcome action promptText response ctx logger)))) = None"
    and "textResponseLines (fst (snd (handleDialog_handler outcome action promptText response ctx logger))) =
           textResponseLines response @
             [case action of
                accept \<Rightarrow> ''Successfully accepted the dialog''
              | dismiss \<Rightarrow> ''Successfully dismissed the dialog'']"
    and "snd (snd (snd (handleDialog_handler outcome action promptText response ctx logger))) =
           logger @
             (case outcome d action (case action of accept \<Rightarrow> promptText | dismiss \<Rightarrow> None) of
                None \<Rightarrow> []
              | Some err \<Rightarrow> [err])"
  using assms
  by (cases action;
      simp add: handleDialog_handler_def Let_def clearDialog_def setIncludePages_def
        appendResponseLine_def split: option.splits)+

lemma map_result_all_ok:
  "list_all (\<lambda>x. \<not> isl (f x)) xs \<Longrightarrow> map_result f xs = Inr (map (\<lambda>x. projr (f x)) xs)"
  by (induction xs) (auto split: sum.splits)

lemma console_args_all_rendered:
  "data_args (consoleMessageData i (Message (ConsoleMessage t m args))) = map stringifyArg args"
  by (simp add: consoleMessageData_def)

lemma failed_arg_placeholder: "stringifyArg (Inl err) = ''undefined''"
  by (simp add: stringifyArg_def)

lemma console_list_collected:
  assumes "list_all (\<lambda>item. \<not> isl (getConsoleMessageStableId ctx item)) collected"
  shows "map_result
           (\<lambda>item. case getConsoleMessageStableId ctx item of
                Inl e \<Rightarrow> Inl e
              | Inr stableId \<Rightarrow> Inr (consoleMessageData stableId item))
           collected =
         Inr (map (\<lambda>item. consoleMessageData (projr (getConsoleMessageStableId ctx item)) item)
                collected)"
proof -
  let ?f = "\<lambda>item. case getConsoleMessageStableId ctx item of
                Inl e \<Rightarrow> Inl e
              | Inr stableId \<Rightarrow> Inr (consoleMessageData stableId item)"
  from assms have a: "list_all (\<lambda>item. \<not> isl (?f item)) collected"
    by (induction collected) (auto split: sum.splits)
  have "map (\<lambda>item. projr (?f item)) collected =
      map (\<lambda>item. consoleMessageData (projr (getConsoleMessageStableId ctx item)) item) collected"
    using assms by (induction collected) (auto split: sum.splits)
  with map_result_all_ok [OF a] show ?thesis by simp
qed

lemma attached_message_gathered:
  assumes "msgid \<noteq> 0" and "getConsoleMessageById ctx msgid = Inr item"
  shows "gatherConsoleData (attachConsoleMessage response msgid) ctx =
           Inr (Some (consoleMessageData msgid item))"
  using assms by (simp add: gatherConsoleData_def attachConsoleMessage_def truthy_number_def)


lemma console_list_gathered:
  assumes "consoleDataOptions response = Some opts" and "cdo_include opts"
    and "cdo_types opts = None"
    and "getConsoleData ctx (cdo_includePreservedMessages opts) = Inr collected"
    and "list_all (\<lambda>item. \<not> isl (getConsoleMessageStableId ctx item)) collected"
  shows "gatherConsoleListData response ctx =
     Inr (Some (map (\<lambda>item. consoleMessageData (projr (getConsoleMessageStableId ctx item)) item)
                  collected))"
  using assms(1-4) console_list_collected [OF assms(5)]
  by (simp add: gatherConsoleListData_def)

text \<open>
  Claim C9. With a dialog open, \<open>handle_dialog\<close> returns normally whatever the accept or
  dismiss call on the dialog throws: the error goes to the logger and nowhere else, the
  success line is appended and the dialog is cleared. A console argument whose
  \<open>jsonValue()\<close> fails is rendered as \<open>undefined\<close>; every argument of a message is rendered, in
  order, and neither the attached message nor the list of messages fails to be gathered
  because of an argument (the list is gathered whenever the page is selected and every
  message has a stable id).
\<close>

theorem failures_swallowed:
  "(dialog ctx = Some d \<longrightarrow>
      fst (handleDialog_handler outcome action promptText response ctx logger) = Inr () \<and>
      dialog (fst (snd (snd (handleDialog_handler outcome action promptText response ctx logger)))) =
        None \<and>
      textResponseLines (fst (snd (handleDialog_handler outcome action promptText response ctx logger))) =
        textResponseLines response @
          [case action of
             accept \<Rightarrow> ''Successfully accepted the dialog''
           | dismiss \<Rightarrow> ''Successfully dismissed the dialog''] \<and>
      snd (snd (snd (handleDialog_handler outcome action promptText response ctx logger))) =
        logger @
          (case outcome d action (case action of accept \<Rightarrow> promptText | dismiss \<Rightarrow> None) of
             None \<Rightarrow> []
           | Some err \<Rightarrow> [err])) \<and>
   stringifyArg (Inl failure) = ''undefined'' \<and>
   data_args (consoleMessageData i (Message (ConsoleMessage t m args))) = map stringifyArg args \<and>
   (msgid \<noteq> 0 \<and> getConsoleMessageById ctx msgid = Inr item \<longrightarrow>
      gatherConsoleData (attachConsoleMessage response msgid) ctx =
        Inr (Some (consoleMessageData msgid item))) \<and>
   (consoleDataOptions response = Some opts \<and> cdo_include opts \<and> cdo_types opts = None \<and>
    getConsoleData ctx (cdo_includePreservedMessages opts) = Inr collected \<and>
    list_all (\<lambda>item. \<not> isl (getConsoleMessageStableId ctx item)) collected \<longrightarrow>
      gatherConsoleListData response ctx =
        Inr (Some (map (\<lambda>item. consoleMessageData (projr (getConsoleMessageStableId ctx item)) item)
                     collected)))"
proof (intro conjI impI)
  assume h: "dialog ctx = Some d"
  show "fst (handleDialog_handler outcome action promptText response ctx logger) = Inr ()"
    by (rule handleDialog_swallows(1) [OF h])
  show "dialog (fst (snd (snd (handleDialog_handler outcome action promptText response ctx logger)))) =
        None"
    by (rule handleDialog_swallows(2) [OF h])
  show "textResponseLines (fst (snd (handleDialog_handler outcome action promptText response ctx logger))) =
        textResponseLines response @
          [case action of
             accept \<Rightarrow> ''Successfully accepted the dialog''
           | dismiss \<Rightarrow> ''Successfully dismissed the dialog'']"
    by (rule handleDialog_swallows(3) [OF h])
  show "snd (snd (snd (handleDialog_handler outcome action promptText response ctx logger))) =
        logger @
          (case outcome d action (case action of accept \<Rightarrow> promptText | dismiss \<Rightarrow> None) of
             None \<Rightarrow> []
           | Some err \<Rightarrow> [err])"
    by (rule handleDialog_swallows(4) [OF h])
next
  show "stringifyArg (Inl failure) = ''undefined''" by (rule failed_arg_placeholder)
  show "data_args (consoleMessageData i (Message (ConsoleMessage t m args))) = map stringifyArg args"
    by (rule console_args_all_rendered)
next
  assume "msgid \<noteq> 0 \<and> getConsoleMessageById ctx msgid = Inr item"
  then show "gatherConsoleData (attachConsoleMessage response msgid) ctx =
        Inr (Some (consoleMessageData msgid item))"
    by (intro attached_message_gathered) (erule conjE | assumption)+
next
  assume h: "consoleDataOptions response = Some opts \<and> cdo_include opts \<and> cdo_types opts = None \<and>
    getConsoleData ctx (cdo_includePreservedMessages opts) = Inr collected \<and>
    list_all (\<lambda>item. \<not> isl (getConsoleMessageStableId ctx item)) collected"
  then have a: "consoleDataOptions response = Some opts" and b: "cdo_include opts"
    and c: "cdo_types opts = None"
    and d: "getConsoleData ctx (cdo_includePreservedMessages opts) = Inr collected"
    and e: "list_all (\<lambda>item. \<not> isl (getConsoleMessageStableId ctx item)) collected"
    by blast+
  show "gatherConsoleListData response ctx =
        Inr (Some (map (\<lambda>item. consoleMessageData (projr (getConsoleMessageStableId ctx item)) item)
                     collected))"
    by (rule console_list_gathered [OF a b c d e])
qed

text \<open>
  The theorem at the example session with an alert open whose accept call throws, and at
  its three console messages, the second of which has an argument that cannot be read.
\<close>

theorem failures_swallowed_witness:
  "fst (handleDialog_handler (\<lambda>d a p. Some (Error ''No dialog is showing'' None)) accept None
          new_McpResponse
          (example_ctx\<lparr>dialog := Some \<lparr>dialog_type = ''alert'', dialog_message = ''hi'',
             dialog_defaultValue = []\<rparr>\<rparr>) []) = Inr () \<and>
   dialog (fst (snd (snd (handleDialog_handler
          (\<lambda>d a p. Some (Error ''No dialog is showing'' None)) accept None
          new_McpResponse
          (example_ctx\<lparr>dialog := Some \<lparr>dialog_type = ''alert'', dialog_message = ''hi'',
             dialog_defaultValue = []\<rparr>\<rparr>) [])))) = None \<and>
   textResponseLines (fst (snd (handleDialog_handler
          (\<lambda>d a p. Some (Error ''No dialog is showing'' None)) accept None
          new_McpResponse
          (example_ctx\<lparr>dialog := Some \<lparr>dialog_type = ''alert'', dialog_message = ''hi'',
             dialog_defaultValue = []\<rparr>\<rparr>) []))) = [''Successfully accepted the dialog''] \<and>
   snd (snd (snd (handleDialog_handler
          (\<lambda>d a p. Some (Error ''No dialog is showing'' None)) accept None
          new_McpResponse
          (example_ctx\<lparr>dialog := Some \<lparr>dialog_type = ''alert'', dialog_message = ''hi'',
             dialog_defaultValue = []\<rparr>\<rparr>) []))) = [Error ''No dialog is showing'' None] \<and>
   map data_args
     (case gatherConsoleListData
        (new_McpResponse\<lparr>consoleDataOptions := Some
           \<lparr>cdo_include = True, cdo_pagination = None, cdo_types = None,
            cdo_includePreservedMessages = None\<rparr>\<rparr>) example_ctx of
        Inl e \<Rightarrow> []
      | Inr listData \<Rightarrow> (case listData of None \<Rightarrow> [] | Some ds \<Rightarrow> ds)) =
     [[''hello''], [''1'', ''undefined'', ''null''], []] \<and>
   gatherConsoleData (attachConsoleMessage new_McpResponse 2) example_ctx =
     Inr (Some \<lparr>consoleMessageStableId = 2, data_type = ''warning'', data_message = ''careful'',
                data_args = [''1'', ''undefined'', ''null'']\<rparr>)"
proof -
  let ?d = "\<lparr>dialog_type = ''alert'', dialog_message = ''hi'', dialog_defaultValue = []\<rparr>"
  let ?ctx = "example_ctx\<lparr>dialog := Some ?d\<rparr>"
  let ?out = "\<lambda>(d::Dialog) (a::dialog_action) (p::string option).
      Some (Error ''No dialog is showing'' None)"
  let ?opts = "\<lparr>cdo_include = True, cdo_pagination = None, cdo_types = None,
            cdo_includePreservedMessages = None\<rparr>"
  let ?r = "new_McpResponse\<lparr>consoleDataOptions := Some ?opts\<rparr>"
  have h: "dialog ?ctx = Some ?d" by simp
  note D = failures_swallowed [where ctx = ?ctx and d = ?d and outcome = ?out and action = accept
      and promptText = None and response = new_McpResponse and logger = "[]",
      THEN conjunct1, THEN mp, OF h]
  have c: "consoleDataOptions ?r = Some ?opts \<and> cdo_include ?opts \<and> cdo_types ?opts = None \<and>
    getConsoleData example_ctx (cdo_includePreservedMessages ?opts) = Inr example_messages \<and>
    list_all (\<lambda>item. \<not> isl (getConsoleMessageStableId example_ctx item)) example_messages"
    by (simp add: example_console_data example_console_ids list_all_iff)
  note G = failures_swallowed [where ctx = example_ctx and response = ?r and opts = ?opts and
      collected = example_messages,
      THEN conjunct2, THEN conjunct2, THEN conjunct2, THEN conjunct2, THEN mp, OF c]
  have g: "map data_args
     (case gatherConsoleListData ?r example_ctx of
        Inl e \<Rightarrow> []
      | Inr listData \<Rightarrow> (case listData of None \<Rightarrow> [] | Some ds \<Rightarrow> ds)) =
     [[''hello''], [''1'', ''undefined'', ''null''], []]"
    unfolding G
    by (simp add: example_messages_def consoleMessageData_def stringifyArg_def String_int_def
        String_nat_small)
  have t: "textResponseLines new_McpResponse = []" by (simp add: new_McpResponse_def)
  let ?m = "Message (ConsoleMessage ''warning'' ''careful''
         [Inr (JsNumber ''1''), Inl (Error ''Execution context was destroyed'' None), Inr JsNull])"
  have a: "(2::int) \<noteq> 0 \<and> getConsoleMessageById example_ctx 2 = Inr ?m"
    by (simp add: getConsoleMessageById_def getSelectedPage_def at_index_def example_ctx_def
        example_page_def example_collector_def example_messages_def)
  note A = failures_swallowed [where ctx = example_ctx and response = new_McpResponse and
      msgid = 2 and item = ?m,
      THEN conjunct2, THEN conjunct2, THEN conjunct2, THEN conjunct1, THEN mp, OF a]
  have m: "consoleMessageData 2 ?m =
      \<lparr>consoleMessageStableId = 2, data_type = ''warning'', data_message = ''careful'',
                data_args = [''1'', ''undefined'', ''null'']\<rparr>"
    by (simp add: consoleMessageData_def stringifyArg_def String_int_def String_nat_small)
  show ?thesis
  proof (intro conjI)
    show "gatherConsoleData (attachConsoleMessage new_McpResponse 2) example_ctx =
     Inr (Some \<lparr>consoleMessageStableId = 2, data_type = ''warning'', data_message = ''careful'',
                data_args = [''1'', ''undefined'', ''null'']\<rparr>)"
      using A unfolding m .
    show "fst (handleDialog_handler ?out accept None new_McpResponse ?ctx []) = Inr ()"
      by (rule D [THEN conjunct1])
    show "dialog (fst (snd (snd (handleDialog_handler ?out accept None new_McpResponse ?ctx [])))) = None"
      by (rule D [THEN conjunct2, THEN conjunct1])
    show "textResponseLines (fst (snd (handleDialog_handler ?out accept None new_McpResponse ?ctx []))) =
        [''Successfully accepted the dialog'']"
      using D [THEN conjunct2, THEN conjunct2, THEN conjunct1] unfolding t by simp
    show "snd (snd (snd (handleDialog_handler ?out accept None new_McpResponse ?ctx []))) =
        [Error ''No dialog is showing'' None]"
      using D [THEN conjunct2, THEN conjunct2, THEN conjunct2] by simp
    show "map data_args
     (case gatherConsoleListData ?r example_ctx of
        Inl e \<Rightarrow> []
      | Inr listData \<Rightarrow> (case listData of None \<Rightarrow> [] | Some ds \<Rightarrow> ds)) =
     [[''hello''], [''1'', ''undefined'', ''null''], []]" by (rule g)
  qed
qed

section \<open>Which page the dialog handler listens to\<close>

text \<open>
  \<open>setSelectedPageIdx\<close> itself moves the handler: from a session in which the handler is
  subscribed to exactly the selected page, a successful call leaves it subscribed to
  exactly the newly selected page, and in such a session a dialog on any other page is
  not captured.
\<close>

lemma updateSelectedPageTimeouts_keeps:
  assumes "updateSelectedPageTimeouts ctx = (r, ctx')"
  shows "pages ctx' = pages ctx" and "selectedPageIdx ctx' = selectedPageIdx ctx"
    and "browserPages ctx' = browserPages ctx" and "dialog ctx' = dialog ctx"
    and "dialogListeners (pageObjs ctx' p) = dialogListeners (pageObjs ctx p)"
  using assms
  by (auto simp: updateSelectedPageTimeouts_def setDefaultTimeout_def
      setDefaultNavigationTimeout_def Let_def split: sum.splits)

lemma setSelectedPageIdx_moves_listener:
  assumes ex: "dialog_exclusive ctx" and ok: "setSelectedPageIdx ctx idx = (Inr (), ctx')"
  shows "dialog_exclusive ctx'"
proof -
  from ok obtain oldPage where old: "getSelectedPage ctx = Inr oldPage"
    by (auto simp: setSelectedPageIdx_def split: sum.splits)
  define ctx2 where "ctx2 = (page_off_dialog oldPage ctx)\<lparr>selectedPageIdx := idx\<rparr>"
  from ok old obtain newPage where new: "getSelectedPage ctx2 = Inr newPage"
    and upd: "updateSelectedPageTimeouts (page_on_dialog newPage ctx2) = (Inr (), ctx')"
    by (auto simp: setSelectedPageIdx_def ctx2_def Let_def split: sum.splits)
  from old have sel: "at_index (pages ctx) (selectedPageIdx ctx) = Some oldPage"
    by (auto simp: getSelectedPage_def split: option.splits if_splits)
  from new have sel2: "at_index (pages ctx) idx = Some newPage"
    by (auto simp: getSelectedPage_def ctx2_def page_off_dialog_def split: option.splits if_splits)
  from ex sel have one: "dialogListeners (pageObjs ctx oldPage) = 1"
    and others: "list_all (\<lambda>page. page = oldPage \<or> dialogListeners (pageObjs ctx page) = 0)
      (pages ctx @ browserPages ctx)"
    by (simp_all add: dialog_exclusive_def)
  let ?c3 = "page_on_dialog newPage ctx2"
  have l: "dialogListeners (pageObjs ?c3 p) = (if p = newPage then 1 else 0)"
    if "p = oldPage \<or> dialogListeners (pageObjs ctx p) = 0" for p
    using that one by (auto simp: page_on_dialog_def page_off_dialog_def ctx2_def)
  have p3: "pages ?c3 = pages ctx" "selectedPageIdx ?c3 = idx" "browserPages ?c3 = browserPages ctx"
    by (simp_all add: page_on_dialog_def page_off_dialog_def ctx2_def)
  note k = updateSelectedPageTimeouts_keeps [OF upd]
  have a: "at_index (pages ctx') (selectedPageIdx ctx') = Some newPage"
    using sel2 k(1,2) p3 by simp
  have b: "dialogListeners (pageObjs ctx' newPage) = 1"
  proof (cases "newPage = oldPage")
    case True
    then show ?thesis using l [of newPage] k(5) [of newPage] by simp
  next
    case False
    from sel2 have "newPage \<in> set (pages ctx)"
      by (auto simp: at_index_def split: if_splits)
    with others False have "dialogListeners (pageObjs ctx newPage) = 0"
      by (auto simp: list_all_iff)
    then show ?thesis using l [of newPage] k(5) [of newPage] by simp
  qed
  have c: "list_all (\<lambda>page. page = newPage \<or> dialogListeners (pageObjs ctx' page) = 0)
      (pages ctx' @ browserPages ctx')"
    unfolding k(1) k(3) p3(1) p3(3) k(5) using others l by (auto simp: list_all_iff)
  from a b c show ?thesis by (simp add: dialog_exclusive_def)
qed

lemma exclusive_ignores_other_pages:
  assumes "dialog_exclusive ctx" and "getSelectedPage ctx = Inr selected"
    and "page \<in> set (pages ctx @ browserPages ctx)" and "page \<noteq> selected"
  shows "emit_dialog page d ctx = ctx"
proof -
  from assms(2) have "at_index (pages ctx) (selectedPageIdx ctx) = Some selected"
    by (auto simp: getSelectedPage_def split: option.splits if_splits)
  with assms(1,3,4) have "dialogListeners (pageObjs ctx page) = 0"
    by (auto simp: dialog_exclusive_def list_all_iff)
  then show ?thesis by (simp add: emit_dialog_def)
qed

lemma handle_rebuilds_pages:
  "snapshotParams response = None \<Longrightarrow>
   snd (handle fmt node toolName response ctx) =
     (if includePages response then createPagesSnapshot ctx else ctx)"
  by (simp add: handle_def gatherSnapshot_def Let_def split: sum.splits prod.splits)


lemmas session_eval = getSelectedPage_def getPageByIdx_def at_index_def example_ctx_def
  example_page_def updateSelectedPageTimeouts_def getCpuThrottlingRate_def
  getNetworkConditions_def setDefaultTimeout_def setDefaultNavigationTimeout_def
  page_off_dialog_def page_on_dialog_def page_close_def createPagesSnapshot_def startsWith_def
  setSelectedPageIdx_def closePage_def Let_def

lemma example_exclusive: "dialog_exclusive example_ctx"
  by (simp add: dialog_exclusive_def at_index_def example_ctx_def example_page_def)

lemma example_close_first:
  "closePage_handler 0 new_McpResponse example_ctx =
     (Inr (), setIncludePages new_McpResponse True, snd (closePage example_ctx 0))"
  by (simp add: closePage_handler_def session_eval)

lemma example_after_close:
  "pages (createPagesSnapshot (snd (closePage example_ctx 0))) = [1]"
  "selectedPageIdx (createPagesSnapshot (snd (closePage example_ctx 0))) = 0"
  "dialogListeners (pageObjs (createPagesSnapshot (snd (closePage example_ctx 0))) p) =
     (if p = 0 then 1 else 0)"
  "page_closed (pageObjs (createPagesSnapshot (snd (closePage example_ctx 0))) p) = (p = 0)"
  "dialog (createPagesSnapshot (snd (closePage example_ctx 0))) = None"
  by (simp_all add: session_eval)


lemma closed_first_page_eq:
  "closed_first_page = createPagesSnapshot (snd (closePage example_ctx 0))"
  unfolding closed_first_page_def example_close_first
  by (simp add: handle_rebuilds_pages setIncludePages_def new_McpResponse_def)

lemma three_pages_facts:
  "pages three_pages = [0, 1, 2]" "selectedPageIdx three_pages = 1"
  "browserPages three_pages = [0, 1, 2]"
  "dialogListeners (pageObjs three_pages p) = (if p = 1 then 1 else 0)"
  "page_closed (pageObjs three_pages p) = False"
  "page_url (pageObjs three_pages p) = ''https://example.com/''"
  "dialog three_pages = None"
  "experimentalDevToolsDebugging three_pages = False"
  by (simp_all add: three_pages_def session_eval)

lemma tab_closed_eq: "tab_closed = createPagesSnapshot (page_close 0 three_pages)"
  by (simp add: tab_closed_def handle_rebuilds_pages listPages_handler_def
      setIncludePages_def new_McpResponse_def)

text \<open>
  Claim C7. The handler does not stay on the selected page when the page list is rebuilt,
  because the selection is an index into \<open>#pages\<close> and \<open>createPagesSnapshot\<close> replaces that
  list without moving the handler. After \<open>close_page\<close> of page 0 (which selects page 0 and
  then closes it) and the handling of its response, the selected page is the former
  page 1, it has no handler, and a dialog that opens on it is not captured. After the
  user closes the first of three tabs while the second is selected, the selected page is
  the third; the handler is still on the second, so a dialog on that page, which is not
  selected, is captured, and a dialog on the selected page is not.
\<close>

theorem dialog_handler_off_selected_page:
  "dialog_exclusive example_ctx \<and>
   getSelectedPage closed_first_page = Inr 1 \<and>
   dialogListeners (pageObjs closed_first_page 1) = 0 \<and>
   dialog (emit_dialog 1 example_dialog closed_first_page) = None \<and>
   \<not> dialog_exclusive closed_first_page \<and>
   dialog_exclusive three_pages \<and>
   getSelectedPage tab_closed = Inr 2 \<and>
   dialogListeners (pageObjs tab_closed 1) = 1 \<and>
   dialogListeners (pageObjs tab_closed 2) = 0 \<and>
   dialog (emit_dialog 1 example_dialog tab_closed) = Some example_dialog \<and>
   dialog (emit_dialog 2 example_dialog tab_closed) = None \<and>
   \<not> dialog_exclusive tab_closed"
proof (intro conjI)
  show "dialog_exclusive example_ctx" by (rule example_exclusive)
  show "getSelectedPage closed_first_page = Inr 1"
    unfolding closed_first_page_eq
    by (simp add: getSelectedPage_def at_index_def example_after_close)
  show "dialogListeners (pageObjs closed_first_page 1) = 0"
    unfolding closed_first_page_eq by (simp add: example_after_close)
  show "dialog (emit_dialog 1 example_dialog closed_first_page) = None"
    unfolding closed_first_page_eq by (simp add: emit_dialog_def example_after_close)
  show "\<not> dialog_exclusive closed_first_page"
    unfolding closed_first_page_eq
    by (simp add: dialog_exclusive_def at_index_def example_after_close)
  show "dialog_exclusive three_pages"
    by (simp add: dialog_exclusive_def at_index_def three_pages_facts)
  have t: "pages tab_closed = [1, 2]" "selectedPageIdx tab_closed = 1"
    "dialogListeners (pageObjs tab_closed p) = (if p = 1 then 1 else 0)"
    "page_closed (pageObjs tab_closed p) = (p = 0)" "dialog tab_closed = None" for p
    unfolding tab_closed_eq
    by (simp_all add: createPagesSnapshot_def page_close_def three_pages_facts startsWith_def)
  show "getSelectedPage tab_closed = Inr 2"
    by (simp add: getSelectedPage_def at_index_def t)
  show "dialogListeners (pageObjs tab_closed 1) = 1" by (simp add: t)
  show "dialogListeners (pageObjs tab_closed 2) = 0" by (simp add: t)
  show "dialog (emit_dialog 1 example_dialog tab_closed) = Some example_dialog"
    by (simp add: emit_dialog_def t dialogHandler_def)
  show "dialog (emit_dialog 2 example_dialog tab_closed) = None"
    by (simp add: emit_dialog_def t)
  show "\<not> dialog_exclusive tab_closed"
    by (simp add: dialog_exclusive_def at_index_def t)
qed

end
